theory Spec2Isabelle
  imports Complex_Main
begin

section \<open>Notebooks as data\<close>

text \<open>
  The repository consists of four Jupyter notebooks: the Grover optimizer, the
  portfolio optimization, the excited-states solvers (stored behind the portfolio
  notebook, in the same file) and the quantum-object class. A notebook is a list of
  cells; a code cell has an execution counter, its Python source (one string per line,
  the line terminator dropped) and its recorded outputs. Of an output only the text
  written to stdout is kept: rich display data and the value of an executed expression
  are recorded by their kind alone. Markdown cells hold prose and no program; of them
  only the first heading of each notebook is kept, as its title. A cell is named after
  its notebook and its position in the notebook's list of cells, counted from 0 over
  code and markdown cells alike. A backslash, a tab and a single quote inside a
  string are written by their character codes (0x5C, 0x09, 0x27).
\<close>

datatype cell_output = Stream "string list" | Execute_result | Display_data

record cell =
  execution_count :: "nat option"
  source :: "string list"
  outputs :: "cell_output list"

record notebook =
  path :: string
  title :: string
  cells :: "cell list"

definition grover_cell_4 :: cell where
  \<open>grover_cell_4 = \<lparr>
     execution_count = Some 1,
     source = [''from qiskit_algorithms import NumPyMinimumEigensolver'',
                ''from qiskit.primitives import Sampler'',
                ''from qiskit_optimization.algorithms import GroverOptimizer, MinimumEigenOptimizer'',
                ''from qiskit_optimization.translators import from_docplex_mp'',
                ''from docplex.mp.model import Model''],
     outputs = []\<rparr>\<close>

definition grover_cell_5 :: cell where
  \<open>grover_cell_5 = \<lparr>
     execution_count = Some 2,
     source = [''model = Model()'',
                ''x0 = model.binary_var(name="x0")'',
                ''x1 = model.binary_var(name="x1")'',
                ''x2 = model.binary_var(name="x2")'',
                ''model.minimize(-x0 + 2 * x1 - 3 * x2 - 2 * x0 * x2 - 1 * x1 * x2)'',
                ''qp = from_docplex_mp(model)'',
                ''print(qp.prettyprint())''],
     outputs = [Stream ([''Problem name: docplex_model1'',
              '''',
              ''Minimize'',
              ''  -2*x0*x2 - x1*x2 - x0 + 2*x1 - 3*x2'',
              '''',
              ''Subject to'',
              ''  No constraints'',
              '''',
              ''  Binary variables (3)'',
              ''    x0 x1 x2'',
              ''''])]\<rparr>\<close>

definition grover_cell_7 :: cell where
  \<open>grover_cell_7 = \<lparr>
     execution_count = Some 3,
     source = [''grover_optimizer = GroverOptimizer(6, num_iterations=10, sampler=Sampler())'',
                ''results = grover_optimizer.solve(qp)'',
                ''print(results.prettyprint())''],
     outputs = [Stream ([''objective function value: -6.0'',
              ''variable values: x0=1.0, x1=0.0, x2=1.0'',
              ''status: SUCCESS''])]\<rparr>\<close>

definition grover_cell_10 :: cell where
  \<open>grover_cell_10 = \<lparr>
     execution_count = Some 4,
     source = [''exact_solver = MinimumEigenOptimizer(NumPyMinimumEigensolver())'',
                ''exact_result = exact_solver.solve(qp)'',
                ''print(exact_result.prettyprint())''],
     outputs = [Stream ([''objective function value: -6.0'',
              ''variable values: x0=1.0, x1=0.0, x2=1.0'',
              ''status: SUCCESS''])]\<rparr>\<close>

definition grover_cell_11 :: cell where
  \<open>grover_cell_11 = \<lparr>
     execution_count = Some 5,
     source = [''import qiskit.tools.jupyter'',
                '''',
                ''%qiskit_version_table'',
                ''%qiskit_copyright''],
     outputs = [Display_data,
                 Display_data]\<rparr>\<close>

definition grover_cell_12 :: cell where
  \<open>grover_cell_12 = \<lparr>
     execution_count = None,
     source = [],
     outputs = []\<rparr>\<close>

definition grover_nb :: notebook where
  \<open>grover_nb = \<lparr>
     path = ''src/Quantum Optimization/04_grover_optimizer.ipynb'',
     title = ''# Grover Optimizer'',
     cells = [grover_cell_4,
              grover_cell_5,
              grover_cell_7,
              grover_cell_10,
              grover_cell_11,
              grover_cell_12]\<rparr>\<close>

definition portfolio_cell_2 :: cell where
  \<open>portfolio_cell_2 = \<lparr>
     execution_count = Some 1,
     source = [''from qiskit.circuit.library import TwoLocal'',
                ''from qiskit.result import QuasiDistribution'',
                ''from qiskit_aer.primitives import Sampler'',
                ''from qiskit_algorithms import NumPyMinimumEigensolver, QAOA, SamplingVQE'',
                ''from qiskit_algorithms.optimizers import COBYLA'',
                ''from qiskit_finance.applications.optimization import PortfolioOptimization'',
                ''from qiskit_finance.data_providers import RandomDataProvider'',
                ''from qiskit_optimization.algorithms import MinimumEigenOptimizer'',
                ''import numpy as np'',
                ''import matplotlib.pyplot as plt'',
                ''import datetime''],
     outputs = []\<rparr>\<close>

definition portfolio_cell_4 :: cell where
  \<open>portfolio_cell_4 = \<lparr>
     execution_count = Some 2,
     source = [''# set number of assets (= number of qubits)'',
                ''num_assets = 4'',
                ''seed = 123'',
                '''',
                ''# Generate expected return and covariance matrix from (random) time-series'',
                ''stocks = [("TICKER%s" % i) for i in range(num_assets)]'',
                ''data = RandomDataProvider('',
                ''    tickers=stocks,'',
                ''    start=datetime.datetime(2016, 1, 1),'',
                ''    end=datetime.datetime(2016, 1, 30),'',
                ''    seed=seed,'',
                '')'',
                ''data.run()'',
                ''mu = data.get_period_return_mean_vector()'',
                ''sigma = data.get_period_return_covariance_matrix()''],
     outputs = []\<rparr>\<close>

definition portfolio_cell_5 :: cell where
  \<open>portfolio_cell_5 = \<lparr>
     execution_count = Some 3,
     source = [''# plot sigma'',
                ''plt.imshow(sigma, interpolation="nearest")'',
                ''plt.show()''],
     outputs = [Display_data]\<rparr>\<close>

definition portfolio_cell_6 :: cell where
  \<open>portfolio_cell_6 = \<lparr>
     execution_count = Some 4,
     source = [''q = 0.5  # set risk factor'',
                ''budget = num_assets // 2  # set budget'',
                ''penalty = num_assets  # set parameter to scale the budget penalty term'',
                '''',
                ''portfolio = PortfolioOptimization('',
                ''    expected_returns=mu, covariances=sigma, risk_factor=q, budget=budget'',
                '')'',
                ''qp = portfolio.to_quadratic_program()'',
                ''qp''],
     outputs = [Execute_result]\<rparr>\<close>

definition portfolio_cell_8 :: cell where
  \<open>portfolio_cell_8 = \<lparr>
     execution_count = Some 5,
     source = [''def print_result(result):'',
                ''    selection = result.x'',
                ''    value = result.fval'',
                ''    print("Optimal: selection {}, value {:.4f}".format(selection, value))'',
                '''',
                ''    eigenstate = result.min_eigen_solver_result.eigenstate'',
                ''    probabilities = ('',
                ''        eigenstate.binary_probabilities()'',
                ''        if isinstance(eigenstate, QuasiDistribution)'',
                ''        else {k: np.abs(v) ** 2 for k, v in eigenstate.to_dict().items()}'',
                ''    )'',
                ''    print("'' @ [CHR 0x5C] @ ''n----------------- Full result ---------------------")'',
                ''    print("selection'' @ [CHR 0x5C] @ ''tvalue'' @ [CHR 0x5C] @ ''t'' @ [CHR 0x5C] @ ''tprobability")'',
                ''    print("---------------------------------------------------")'',
                ''    probabilities = sorted(probabilities.items(), key=lambda x: x[1], reverse=True)'',
                '''',
                ''    for k, v in probabilities:'',
                ''        x = np.array([int(i) for i in list(reversed(k))])'',
                ''        value = portfolio.to_quadratic_program().objective.evaluate(x)'',
                ''        print("%10s'' @ [CHR 0x5C] @ ''t%.4f'' @ [CHR 0x5C] @ ''t'' @ [CHR 0x5C] @ ''t%.4f" % (x, value, v))''],
     outputs = []\<rparr>\<close>

definition portfolio_cell_10 :: cell where
  \<open>portfolio_cell_10 = \<lparr>
     execution_count = Some 6,
     source = [''exact_mes = NumPyMinimumEigensolver()'',
                ''exact_eigensolver = MinimumEigenOptimizer(exact_mes)'',
                '''',
                ''result = exact_eigensolver.solve(qp)'',
                '''',
                ''print_result(result)''],
     outputs = [Stream ([''Optimal: selection [1. 0. 0. 1.], value -0.0149'',
              '''',
              ''----------------- Full result ---------------------'',
              ''selection'' @ [CHR 0x09] @ ''value'' @ [CHR 0x09] @ [CHR 0x09] @ ''probability'',
              ''---------------------------------------------------'',
              '' [1 0 0 1]'' @ [CHR 0x09] @ ''-0.0149'' @ [CHR 0x09] @ [CHR 0x09] @ ''1.0000''])]\<rparr>\<close>

definition portfolio_cell_12 :: cell where
  \<open>portfolio_cell_12 = \<lparr>
     execution_count = Some 7,
     source = [''from qiskit_algorithms.utils import algorithm_globals'',
                '''',
                ''algorithm_globals.random_seed = 1234'',
                '''',
                ''cobyla = COBYLA()'',
                ''cobyla.set_options(maxiter=500)'',
                ''ry = TwoLocal(num_assets, "ry", "cz", reps=3, entanglement="full")'',
                ''svqe_mes = SamplingVQE(sampler=Sampler(), ansatz=ry, optimizer=cobyla)'',
                ''svqe = MinimumEigenOptimizer(svqe_mes)'',
                ''result = svqe.solve(qp)'',
                '''',
                ''print_result(result)''],
     outputs = [Stream ([''Optimal: selection [1. 0. 0. 1.], value -0.0149'',
              '''',
              ''----------------- Full result ---------------------'',
              ''selection'' @ [CHR 0x09] @ ''value'' @ [CHR 0x09] @ [CHR 0x09] @ ''probability'',
              ''---------------------------------------------------'',
              '' [0 1 1 0]'' @ [CHR 0x09] @ ''0.0008'' @ [CHR 0x09] @ [CHR 0x09] @ ''0.8525'',
              '' [1 0 0 1]'' @ [CHR 0x09] @ ''-0.0149'' @ [CHR 0x09] @ [CHR 0x09] @ ''0.0410'',
              '' [0 0 1 1]'' @ [CHR 0x09] @ ''-0.0010'' @ [CHR 0x09] @ [CHR 0x09] @ ''0.0312'',
              '' [0 0 0 1]'' @ [CHR 0x09] @ ''-0.0008'' @ [CHR 0x09] @ [CHR 0x09] @ ''0.0215'',
              '' [1 0 1 1]'' @ [CHR 0x09] @ ''-0.0150'' @ [CHR 0x09] @ [CHR 0x09] @ ''0.0195'',
              '' [1 0 0 0]'' @ [CHR 0x09] @ ''-0.0140'' @ [CHR 0x09] @ [CHR 0x09] @ ''0.0088'',
              '' [0 1 1 1]'' @ [CHR 0x09] @ ''-0.0000'' @ [CHR 0x09] @ [CHR 0x09] @ ''0.0078'',
              '' [0 1 0 1]'' @ [CHR 0x09] @ ''0.0002'' @ [CHR 0x09] @ [CHR 0x09] @ ''0.0078'',
              '' [0 1 0 0]'' @ [CHR 0x09] @ ''0.0009'' @ [CHR 0x09] @ [CHR 0x09] @ ''0.0059'',
              '' [1 0 1 0]'' @ [CHR 0x09] @ ''-0.0140'' @ [CHR 0x09] @ [CHR 0x09] @ ''0.0020'',
              '' [1 1 0 1]'' @ [CHR 0x09] @ ''-0.0139'' @ [CHR 0x09] @ [CHR 0x09] @ ''0.0010'',
              '' [0 0 0 0]'' @ [CHR 0x09] @ ''0.0000'' @ [CHR 0x09] @ [CHR 0x09] @ ''0.0010''])]\<rparr>\<close>

definition portfolio_cell_14 :: cell where
  \<open>portfolio_cell_14 = \<lparr>
     execution_count = Some 8,
     source = [''algorithm_globals.random_seed = 1234'',
                '''',
                ''cobyla = COBYLA()'',
                ''cobyla.set_options(maxiter=250)'',
                ''qaoa_mes = QAOA(sampler=Sampler(), optimizer=cobyla, reps=3)'',
                ''qaoa = MinimumEigenOptimizer(qaoa_mes)'',
                ''result = qaoa.solve(qp)'',
                '''',
                ''print_result(result)''],
     outputs = [Stream ([''Optimal: selection [1. 0. 0. 1.], value -0.0149'',
              '''',
              ''----------------- Full result ---------------------'',
              ''selection'' @ [CHR 0x09] @ ''value'' @ [CHR 0x09] @ [CHR 0x09] @ ''probability'',
              ''---------------------------------------------------'',
              '' [1 0 0 1]'' @ [CHR 0x09] @ ''-0.0149'' @ [CHR 0x09] @ [CHR 0x09] @ ''0.1797'',
              '' [1 0 1 0]'' @ [CHR 0x09] @ ''-0.0140'' @ [CHR 0x09] @ [CHR 0x09] @ ''0.1729'',
              '' [1 1 0 0]'' @ [CHR 0x09] @ ''-0.0130'' @ [CHR 0x09] @ [CHR 0x09] @ ''0.1641'',
              '' [0 0 1 1]'' @ [CHR 0x09] @ ''-0.0010'' @ [CHR 0x09] @ [CHR 0x09] @ ''0.1592'',
              '' [0 1 1 0]'' @ [CHR 0x09] @ ''0.0008'' @ [CHR 0x09] @ [CHR 0x09] @ ''0.1553'',
              '' [0 1 0 1]'' @ [CHR 0x09] @ ''0.0002'' @ [CHR 0x09] @ [CHR 0x09] @ ''0.1445'',
              '' [0 1 0 0]'' @ [CHR 0x09] @ ''0.0009'' @ [CHR 0x09] @ [CHR 0x09] @ ''0.0049'',
              '' [1 1 0 1]'' @ [CHR 0x09] @ ''-0.0139'' @ [CHR 0x09] @ [CHR 0x09] @ ''0.0039'',
              '' [1 1 1 1]'' @ [CHR 0x09] @ ''-0.0139'' @ [CHR 0x09] @ [CHR 0x09] @ ''0.0039'',
              '' [0 0 0 0]'' @ [CHR 0x09] @ ''0.0000'' @ [CHR 0x09] @ [CHR 0x09] @ ''0.0029'',
              '' [1 0 0 0]'' @ [CHR 0x09] @ ''-0.0140'' @ [CHR 0x09] @ [CHR 0x09] @ ''0.0029'',
              '' [0 0 1 0]'' @ [CHR 0x09] @ ''-0.0001'' @ [CHR 0x09] @ [CHR 0x09] @ ''0.0020'',
              '' [0 1 1 1]'' @ [CHR 0x09] @ ''-0.0000'' @ [CHR 0x09] @ [CHR 0x09] @ ''0.0010'',
              '' [1 1 1 0]'' @ [CHR 0x09] @ ''-0.0130'' @ [CHR 0x09] @ [CHR 0x09] @ ''0.0010'',
              '' [0 0 0 1]'' @ [CHR 0x09] @ ''-0.0008'' @ [CHR 0x09] @ [CHR 0x09] @ ''0.0010'',
              '' [1 0 1 1]'' @ [CHR 0x09] @ ''-0.0150'' @ [CHR 0x09] @ [CHR 0x09] @ ''0.0010''])]\<rparr>\<close>

definition portfolio_cell_15 :: cell where
  \<open>portfolio_cell_15 = \<lparr>
     execution_count = Some 9,
     source = [''import qiskit.tools.jupyter'',
                '''',
                ''%qiskit_version_table'',
                ''%qiskit_copyright''],
     outputs = [Display_data,
                 Display_data]\<rparr>\<close>

definition portfolio_cell_16 :: cell where
  \<open>portfolio_cell_16 = \<lparr>
     execution_count = None,
     source = [],
     outputs = []\<rparr>\<close>

definition portfolio_nb :: notebook where
  \<open>portfolio_nb = \<lparr>
     path = ''src/Quantum Finance/01_portfolio_optimization.ipynb'',
     title = ''# Portfolio Optimization'',
     cells = [portfolio_cell_2,
              portfolio_cell_4,
              portfolio_cell_5,
              portfolio_cell_6,
              portfolio_cell_8,
              portfolio_cell_10,
              portfolio_cell_12,
              portfolio_cell_14,
              portfolio_cell_15,
              portfolio_cell_16]\<rparr>\<close>

definition excited_cell_2 :: cell where
  \<open>excited_cell_2 = \<lparr>
     execution_count = Some 1,
     source = [''from qiskit_nature.units import DistanceUnit'',
                ''from qiskit_nature.second_q.drivers import PySCFDriver'',
                '''',
                ''driver = PySCFDriver('',
                ''    atom="H 0 0 0; H 0 0 0.735",'',
                ''    basis="sto3g",'',
                ''    charge=0,'',
                ''    spin=0,'',
                ''    unit=DistanceUnit.ANGSTROM,'',
                '')'',
                '''',
                ''es_problem = driver.run()''],
     outputs = []\<rparr>\<close>

definition excited_cell_4 :: cell where
  \<open>excited_cell_4 = \<lparr>
     execution_count = Some 2,
     source = [''from qiskit_nature.second_q.mappers import JordanWignerMapper'',
                '''',
                ''mapper = JordanWignerMapper()''],
     outputs = []\<rparr>\<close>

definition excited_cell_6 :: cell where
  \<open>excited_cell_6 = \<lparr>
     execution_count = Some 3,
     source = [''from qiskit_algorithms import NumPyEigensolver'',
                '''',
                ''numpy_solver = NumPyEigensolver(k=4, filter_criterion=es_problem.get_default_filter_criterion())''],
     outputs = []\<rparr>\<close>

definition excited_cell_8 :: cell where
  \<open>excited_cell_8 = \<lparr>
     execution_count = Some 4,
     source = [''from qiskit_algorithms import VQE'',
                ''from qiskit_algorithms.optimizers import SLSQP'',
                ''from qiskit.primitives import Estimator'',
                ''from qiskit_nature.second_q.algorithms import GroundStateEigensolver, QEOM, EvaluationRule'',
                ''from qiskit_nature.second_q.circuit.library import HartreeFock, UCCSD'',
                '''',
                ''ansatz = UCCSD('',
                ''    es_problem.num_spatial_orbitals,'',
                ''    es_problem.num_particles,'',
                ''    mapper,'',
                ''    initial_state=HartreeFock('',
                ''        es_problem.num_spatial_orbitals,'',
                ''        es_problem.num_particles,'',
                ''        mapper,'',
                ''    ),'',
                '')'',
                '''',
                ''estimator = Estimator()'',
                ''# This first part sets the ground state solver'',
                ''# see more about this part in the ground state calculation tutorial'',
                ''solver = VQE(estimator, ansatz, SLSQP())'',
                ''solver.initial_point = [0.0] * ansatz.num_parameters'',
                ''gse = GroundStateEigensolver(mapper, solver)'',
                '''',
                ''# The qEOM algorithm is simply instantiated with the chosen ground state solver and Estimator primitive'',
                ''qeom_excited_states_solver = QEOM(gse, estimator, "sd", EvaluationRule.ALL)''],
     outputs = []\<rparr>\<close>

definition excited_cell_10 :: cell where
  \<open>excited_cell_10 = \<lparr>
     execution_count = Some 5,
     source = [''from qiskit_nature.second_q.algorithms import ExcitedStatesEigensolver'',
                '''',
                ''numpy_excited_states_solver = ExcitedStatesEigensolver(mapper, numpy_solver)'',
                ''numpy_results = numpy_excited_states_solver.solve(es_problem)'',
                '''',
                ''qeom_results = qeom_excited_states_solver.solve(es_problem)'',
                '''',
                ''print(numpy_results)'',
                ''print("'' @ [CHR 0x5C] @ ''n'' @ [CHR 0x5C] @ ''n")'',
                ''print(qeom_results)''],
     outputs = [Stream ([''=== GROUND STATE ENERGY ==='',
              '' '',
              ''* Electronic ground state energy (Hartree): -1.857275030202'',
              ''  - computed part:      -1.857275030202'',
              ''~ Nuclear repulsion energy (Hartree): 0.719968994449'',
              ''> Total ground state energy (Hartree): -1.137306035753'',
              '' '',
              ''=== EXCITED STATE ENERGIES ==='',
              '' '',
              ''  1: '',
              ''* Electronic excited state energy (Hartree): -0.882722150245'',
              ''> Total excited state energy (Hartree): -0.162753155796'',
              ''  2: '',
              ''* Electronic excited state energy (Hartree): -0.224911252831'',
              ''> Total excited state energy (Hartree): 0.495057741618'',
              '' '',
              ''=== MEASURED OBSERVABLES ==='',
              '' '',
              ''  0:  # Particles: 2.000 S: 0.000 S^2: 0.000 M: 0.000'',
              ''  1:  # Particles: 2.000 S: 0.000 S^2: 0.000 M: 0.000'',
              ''  2:  # Particles: 2.000 S: 0.000 S^2: 0.000 M: 0.000'',
              '' '',
              ''=== DIPOLE MOMENTS ==='',
              '' '',
              ''~ Nuclear dipole moment (a.u.): [0.0  0.0  1.3889487]'',
              '' '',
              ''  0: '',
              ''  * Electronic dipole moment (a.u.): [0.0  0.0  1.388948701555]'',
              ''    - computed part:      [0.0  0.0  1.388948701555]'',
              ''  > Dipole moment (a.u.): [0.0  0.0  -0.000000001555]  Total: 0.000000001555'',
              ''                 (debye): [0.0  0.0  -0.000000003953]  Total: 0.000000003953'',
              '' '',
              ''  1: '',
              ''  * Electronic dipole moment (a.u.): [0.0  0.0  1.388948701555]'',
              ''    - computed part:      [0.0  0.0  1.388948701555]'',
              ''  > Dipole moment (a.u.): [0.0  0.0  -0.000000001555]  Total: 0.000000001555'',
              ''                 (debye): [0.0  0.0  -0.000000003953]  Total: 0.000000003953'',
              '' '',
              ''  2: '',
              ''  * Electronic dipole moment (a.u.): [0.0  0.0  1.388948701555]'',
              ''    - computed part:      [0.0  0.0  1.388948701555]'',
              ''  > Dipole moment (a.u.): [0.0  0.0  -0.000000001555]  Total: 0.000000001555'',
              ''                 (debye): [0.0  0.0  -0.000000003953]  Total: 0.000000003953'',
              '' '',
              '''',
              '''',
              '''',
              ''=== GROUND STATE ENERGY ==='',
              '' '',
              ''* Electronic ground state energy (Hartree): -1.857275030145'',
              ''  - computed part:      -1.857275030145'',
              ''~ Nuclear repulsion energy (Hartree): 0.719968994449'',
              ''> Total ground state energy (Hartree): -1.137306035696'',
              '' '',
              ''=== EXCITED STATE ENERGIES ==='',
              '' '',
              ''  1: '',
              ''* Electronic excited state energy (Hartree): -1.244586756145'',
              ''> Total excited state energy (Hartree): -0.524617761696'',
              ''  2: '',
              ''* Electronic excited state energy (Hartree): -0.882724356546'',
              ''> Total excited state energy (Hartree): -0.162755362097'',
              ''  3: '',
              ''* Electronic excited state energy (Hartree): -0.224913459141'',
              ''> Total excited state energy (Hartree): 0.495055535308'',
              '' '',
              ''=== MEASURED OBSERVABLES ==='',
              '' '',
              ''  0:  # Particles: 2.000 S: 0.000 S^2: 0.000 M: 0.000'',
              ''  1:  # Particles: 2.000 S: 1.000 S^2: 2.000 M: 0.000'',
              ''  2:  # Particles: 2.000 S: 0.000 S^2: -0.000 M: 0.000'',
              ''  3:  # Particles: 2.000 S: 0.000 S^2: 0.000 M: -0.000'',
              '' '',
              ''=== DIPOLE MOMENTS ==='',
              '' '',
              ''~ Nuclear dipole moment (a.u.): [0.0  0.0  1.3889487]'',
              '' '',
              ''  0: '',
              ''  * Electronic dipole moment (a.u.): [0.0  0.0  1.388948961657]'',
              ''    - computed part:      [0.0  0.0  1.388948961657]'',
              ''  > Dipole moment (a.u.): [0.0  0.0  -0.000000261657]  Total: 0.000000261657'',
              ''                 (debye): [0.0  0.0  -0.000000665065]  Total: 0.000000665065'',
              '' '',
              ''  1: '',
              ''  * Electronic dipole moment (a.u.): [0.0  0.0  1.388948701647]'',
              ''    - computed part:      [0.0  0.0  1.388948701647]'',
              ''  > Dipole moment (a.u.): [0.0  0.0  -0.000000001647]  Total: 0.000000001647'',
              ''                 (debye): [0.0  0.0  -0.000000004186]  Total: 0.000000004186'',
              '' '',
              ''  2: '',
              ''  * Electronic dipole moment (a.u.): [0.0  0.0  1.388949035771]'',
              ''    - computed part:      [0.0  0.0  1.388949035771]'',
              ''  > Dipole moment (a.u.): [0.0  0.0  -0.000000335771]  Total: 0.000000335771'',
              ''                 (debye): [0.0  0.0  -0.000000853445]  Total: 0.000000853445'',
              '' '',
              ''  3: '',
              ''  * Electronic dipole moment (a.u.): [0.0  0.0  1.388948738594]'',
              ''    - computed part:      [0.0  0.0  1.388948738594]'',
              ''  > Dipole moment (a.u.): [0.0  0.0  -0.000000038594]  Total: 0.000000038594'',
              ''                 (debye): [0.0  0.0  -0.000000098097]  Total: 0.000000098097'',
              '' ''])]\<rparr>\<close>

definition excited_cell_12 :: cell where
  \<open>excited_cell_12 = \<lparr>
     execution_count = Some 6,
     source = [''import numpy as np'',
                '''',
                '''',
                ''def filter_criterion(eigenstate, eigenvalue, aux_values):'',
                ''    return np.isclose(aux_values["ParticleNumber"][0], 2.0) and np.isclose('',
                ''        aux_values["Magnetization"][0], 0.0'',
                ''    )'',
                '''',
                '''',
                ''new_numpy_solver = NumPyEigensolver(k=4, filter_criterion=filter_criterion)'',
                ''new_numpy_excited_states_solver = ExcitedStatesEigensolver(mapper, new_numpy_solver)'',
                ''new_numpy_results = new_numpy_excited_states_solver.solve(es_problem)'',
                '''',
                ''print(new_numpy_results)''],
     outputs = [Stream ([''=== GROUND STATE ENERGY ==='',
              '' '',
              ''* Electronic ground state energy (Hartree): -1.857275030202'',
              ''  - computed part:      -1.857275030202'',
              ''~ Nuclear repulsion energy (Hartree): 0.719968994449'',
              ''> Total ground state energy (Hartree): -1.137306035753'',
              '' '',
              ''=== EXCITED STATE ENERGIES ==='',
              '' '',
              ''  1: '',
              ''* Electronic excited state energy (Hartree): -1.244584549813'',
              ''> Total excited state energy (Hartree): -0.524615555364'',
              ''  2: '',
              ''* Electronic excited state energy (Hartree): -0.882722150245'',
              ''> Total excited state energy (Hartree): -0.162753155796'',
              ''  3: '',
              ''* Electronic excited state energy (Hartree): -0.224911252831'',
              ''> Total excited state energy (Hartree): 0.495057741618'',
              '' '',
              ''=== MEASURED OBSERVABLES ==='',
              '' '',
              ''  0:  # Particles: 2.000 S: 0.000 S^2: 0.000 M: 0.000'',
              ''  1:  # Particles: 2.000 S: 1.000 S^2: 2.000 M: 0.000'',
              ''  2:  # Particles: 2.000 S: 0.000 S^2: 0.000 M: 0.000'',
              ''  3:  # Particles: 2.000 S: 0.000 S^2: 0.000 M: 0.000'',
              '' '',
              ''=== DIPOLE MOMENTS ==='',
              '' '',
              ''~ Nuclear dipole moment (a.u.): [0.0  0.0  1.3889487]'',
              '' '',
              ''  0: '',
              ''  * Electronic dipole moment (a.u.): [0.0  0.0  1.388948701555]'',
              ''    - computed part:      [0.0  0.0  1.388948701555]'',
              ''  > Dipole moment (a.u.): [0.0  0.0  -0.000000001555]  Total: 0.000000001555'',
              ''                 (debye): [0.0  0.0  -0.000000003953]  Total: 0.000000003953'',
              '' '',
              ''  1: '',
              ''  * Electronic dipole moment (a.u.): [0.0  0.0  1.388948701555]'',
              ''    - computed part:      [0.0  0.0  1.388948701555]'',
              ''  > Dipole moment (a.u.): [0.0  0.0  -0.000000001555]  Total: 0.000000001555'',
              ''                 (debye): [0.0  0.0  -0.000000003953]  Total: 0.000000003953'',
              '' '',
              ''  2: '',
              ''  * Electronic dipole moment (a.u.): [0.0  0.0  1.388948701555]'',
              ''    - computed part:      [0.0  0.0  1.388948701555]'',
              ''  > Dipole moment (a.u.): [0.0  0.0  -0.000000001555]  Total: 0.000000001555'',
              ''                 (debye): [0.0  0.0  -0.000000003953]  Total: 0.000000003953'',
              '' '',
              ''  3: '',
              ''  * Electronic dipole moment (a.u.): [0.0  0.0  1.388948701555]'',
              ''    - computed part:      [0.0  0.0  1.388948701555]'',
              ''  > Dipole moment (a.u.): [0.0  0.0  -0.000000001555]  Total: 0.000000001555'',
              ''                 (debye): [0.0  0.0  -0.000000003953]  Total: 0.000000003953'',
              '' ''])]\<rparr>\<close>

definition excited_cell_13 :: cell where
  \<open>excited_cell_13 = \<lparr>
     execution_count = Some 7,
     source = [''import qiskit.tools.jupyter'',
                '''',
                ''%qiskit_version_table'',
                ''%qiskit_copyright''],
     outputs = [Display_data,
                 Display_data]\<rparr>\<close>

definition excited_nb :: notebook where
  \<open>excited_nb = \<lparr>
     path = ''src/Quantum Finance/01_portfolio_optimization.ipynb'',
     title = ''# Excited states solvers'',
     cells = [excited_cell_2,
              excited_cell_4,
              excited_cell_6,
              excited_cell_8,
              excited_cell_10,
              excited_cell_12,
              excited_cell_13]\<rparr>\<close>

definition qutip_cell_0 :: cell where
  \<open>qutip_cell_0 = \<lparr>
     execution_count = Some 2,
     source = [''from qutip import *''],
     outputs = []\<rparr>\<close>

definition qutip_cell_1 :: cell where
  \<open>qutip_cell_1 = \<lparr>
     execution_count = Some 3,
     source = [''import numpy as np'',
                '''',
                ''import matplotlib.pyplot as plt''],
     outputs = []\<rparr>\<close>

definition qutip_cell_3 :: cell where
  \<open>qutip_cell_3 = \<lparr>
     execution_count = Some 4,
     source = [''print(Qobj())''],
     outputs = [Stream ([''Quantum object: dims = [[1], [1]], shape = (1, 1), type = bra'',
              ''Qobj data ='',
              ''[[0.]]''])]\<rparr>\<close>

definition qutip_cell_4 :: cell where
  \<open>qutip_cell_4 = \<lparr>
     execution_count = Some 5,
     source = [''print(Qobj([[1],[2],[3],[4],[5]]))''],
     outputs = [Stream ([''Quantum object: dims = [[5], [1]], shape = (5, 1), type = ket'',
              ''Qobj data ='',
              ''[[1.]'',
              '' [2.]'',
              '' [3.]'',
              '' [4.]'',
              '' [5.]]''])]\<rparr>\<close>

definition qutip_cell_5 :: cell where
  \<open>qutip_cell_5 = \<lparr>
     execution_count = Some 6,
     source = [''x = np.array([[1, 2, 3, 4, 5]])'',
                ''print(Qobj(x))''],
     outputs = [Stream ([''Quantum object: dims = [[1], [5]], shape = (1, 5), type = bra'',
              ''Qobj data ='',
              ''[[1. 2. 3. 4. 5.]]''])]\<rparr>\<close>

definition qutip_cell_6 :: cell where
  \<open>qutip_cell_6 = \<lparr>
     execution_count = Some 7,
     source = [''r = np.random.rand(8, 8)'',
                ''print(Qobj(r))''],
     outputs = [Stream ([''Quantum object: dims = [[8], [8]], shape = (8, 8), type = oper, isherm = False'',
              ''Qobj data ='',
              ''[[0.33060943 0.29314151 0.82170027 0.42846551 0.89378736 0.90783233'',
              ''  0.86797898 0.7865101 ]'',
              '' [0.40266153 0.44844116 0.88152248 0.07202133 0.69032239 0.1317123'',
              ''  0.00657011 0.29070351]'',
              '' [0.15203079 0.29815243 0.48924943 0.3247457  0.7385379  0.38105489'',
              ''  0.18853758 0.62568671]'',
              '' [0.13074871 0.13614371 0.59514342 0.73943296 0.60814968 0.29698553'',
              ''  0.6364438  0.97327015]'',
              '' [0.20627127 0.71100769 0.77748009 0.39616791 0.9968155  0.49075439'',
              ''  0.39633722 0.59960551]'',
              '' [0.68566915 0.16458442 0.47068571 0.12044367 0.5080246  0.72525153'',
              ''  0.34255587 0.41283155]'',
              '' [0.72821582 0.97998897 0.07800379 0.91177562 0.96193116 0.89357617'',
              ''  0.0036448  0.15245709]'',
              '' [0.24738966 0.64213157 0.71891002 0.62471028 0.10473884 0.93714279'',
              ''  0.07291763 0.9389534 ]]''])]\<rparr>\<close>

definition qutip_cell_8 :: cell where
  \<open>qutip_cell_8 = \<lparr>
     execution_count = Some 10,
     source = [''basis(7,5)''],
     outputs = [Execute_result]\<rparr>\<close>

definition qutip_cell_9 :: cell where
  \<open>qutip_cell_9 = \<lparr>
     execution_count = Some 11,
     source = [''coherent(10,0.7-0.5j)''],
     outputs = [Execute_result]\<rparr>\<close>

definition qutip_cell_11 :: cell where
  \<open>qutip_cell_11 = \<lparr>
     execution_count = Some 12,
     source = [''destroy(4)''],
     outputs = [Execute_result]\<rparr>\<close>

definition qutip_cell_12 :: cell where
  \<open>qutip_cell_12 = \<lparr>
     execution_count = Some 13,
     source = ['' sigmaz()''],
     outputs = [Execute_result]\<rparr>\<close>

definition qutip_cell_13 :: cell where
  \<open>qutip_cell_13 = \<lparr>
     execution_count = Some 14,
     source = [''jmat(5/2.0,'' @ [CHR 0x27] @ ''+'' @ [CHR 0x27] @ '')''],
     outputs = [Execute_result]\<rparr>\<close>

definition qutip_cell_15 :: cell where
  \<open>qutip_cell_15 = \<lparr>
     execution_count = Some 17,
     source = [''q = destroy(4)'',
                ''q.dims''],
     outputs = [Execute_result]\<rparr>\<close>

definition qutip_cell_16 :: cell where
  \<open>qutip_cell_16 = \<lparr>
     execution_count = Some 18,
     source = [''q.shape''],
     outputs = [Execute_result]\<rparr>\<close>

definition qutip_cell_17 :: cell where
  \<open>qutip_cell_17 = \<lparr>
     execution_count = Some 19,
     source = [''q.type''],
     outputs = [Execute_result]\<rparr>\<close>

definition qutip_cell_18 :: cell where
  \<open>qutip_cell_18 = \<lparr>
     execution_count = Some 20,
     source = [''q.isherm''],
     outputs = [Execute_result]\<rparr>\<close>

definition qutip_cell_19 :: cell where
  \<open>qutip_cell_19 = \<lparr>
     execution_count = Some 21,
     source = [''q.data''],
     outputs = [Execute_result]\<rparr>\<close>

definition qutip_cell_20 :: cell where
  \<open>qutip_cell_20 = \<lparr>
     execution_count = Some 23,
     source = [''q = destroy(4)'',
                ''x = sigmax()'',
                ''q + 5''],
     outputs = [Execute_result]\<rparr>\<close>

definition qutip_cell_21 :: cell where
  \<open>qutip_cell_21 = \<lparr>
     execution_count = Some 24,
     source = [''x * x''],
     outputs = [Execute_result]\<rparr>\<close>

definition qutip_cell_22 :: cell where
  \<open>qutip_cell_22 = \<lparr>
     execution_count = Some 25,
     source = [''q ** 3''],
     outputs = [Execute_result]\<rparr>\<close>

definition qutip_cell_23 :: cell where
  \<open>qutip_cell_23 = \<lparr>
     execution_count = Some 26,
     source = ['' x / np.sqrt(2)''],
     outputs = [Execute_result]\<rparr>\<close>

definition qutip_cell_25 :: cell where
  \<open>qutip_cell_25 = \<lparr>
     execution_count = Some 28,
     source = [''basis(5, 3)''],
     outputs = [Execute_result]\<rparr>\<close>

definition qutip_cell_26 :: cell where
  \<open>qutip_cell_26 = \<lparr>
     execution_count = Some 29,
     source = [''basis(5, 3).dag()''],
     outputs = [Execute_result]\<rparr>\<close>

definition qutip_cell_27 :: cell where
  \<open>qutip_cell_27 = \<lparr>
     execution_count = Some 30,
     source = [''coherent_dm(5, 1)''],
     outputs = [Execute_result]\<rparr>\<close>

definition qutip_cell_28 :: cell where
  \<open>qutip_cell_28 = \<lparr>
     execution_count = Some 31,
     source = [''coherent_dm(5, 1).diag()''],
     outputs = [Execute_result]\<rparr>\<close>

definition qutip_cell_29 :: cell where
  \<open>qutip_cell_29 = \<lparr>
     execution_count = Some 32,
     source = [''coherent_dm(5, 1).diag()''],
     outputs = [Execute_result]\<rparr>\<close>

definition qutip_cell_30 :: cell where
  \<open>qutip_cell_30 = \<lparr>
     execution_count = Some 33,
     source = [''coherent_dm(5, 1).norm()''],
     outputs = [Execute_result]\<rparr>\<close>

definition qutip_cell_31 :: cell where
  \<open>qutip_cell_31 = \<lparr>
     execution_count = Some 34,
     source = [''coherent_dm(5, 1).full()''],
     outputs = [Execute_result]\<rparr>\<close>

definition qutip_cell_32 :: cell where
  \<open>qutip_cell_32 = \<lparr>
     execution_count = Some 35,
     source = [''coherent_dm(5, 1).full()''],
     outputs = [Execute_result]\<rparr>\<close>

definition qutip_cell_33 :: cell where
  \<open>qutip_cell_33 = \<lparr>
     execution_count = Some 36,
     source = [''coherent_dm(5, 1).tr()''],
     outputs = [Execute_result]\<rparr>\<close>

definition qutip_cell_34 :: cell where
  \<open>qutip_cell_34 = \<lparr>
     execution_count = Some 37,
     source = [''(basis(4, 2) + basis(4, 1)).unit()''],
     outputs = [Execute_result]\<rparr>\<close>

definition qutip_cell_35 :: cell where
  \<open>qutip_cell_35 = \<lparr>
     execution_count = None,
     source = [],
     outputs = []\<rparr>\<close>

definition qutip_nb :: notebook where
  \<open>qutip_nb = \<lparr>
     path = ''src/unnamed/part_000'',
     title = ''# The quantum object class'',
     cells = [qutip_cell_0,
              qutip_cell_1,
              qutip_cell_3,
              qutip_cell_4,
              qutip_cell_5,
              qutip_cell_6,
              qutip_cell_8,
              qutip_cell_9,
              qutip_cell_11,
              qutip_cell_12,
              qutip_cell_13,
              qutip_cell_15,
              qutip_cell_16,
              qutip_cell_17,
              qutip_cell_18,
              qutip_cell_19,
              qutip_cell_20,
              qutip_cell_21,
              qutip_cell_22,
              qutip_cell_23,
              qutip_cell_25,
              qutip_cell_26,
              qutip_cell_27,
              qutip_cell_28,
              qutip_cell_29,
              qutip_cell_30,
              qutip_cell_31,
              qutip_cell_32,
              qutip_cell_33,
              qutip_cell_34,
              qutip_cell_35]\<rparr>\<close>
definition repository :: "notebook list" where
  "repository = [grover_nb, portfolio_nb, excited_nb, qutip_nb]"

definition code_cells :: "cell list" where
  "code_cells = concat (map cells repository)"

section \<open>Reading Python source\<close>

text \<open>
  The properties proved below are about what the code of the cells contains, so the
  source lines are split into Python tokens: names (identifiers and keywords), numbers, string literals and
  single operator or delimiter characters. A comment runs from \<open>#\<close> outside a string
  literal to the end of the line and yields no token.
\<close>

datatype token = Name string | Number string | Str string | Op char

definition is_digit :: "char \<Rightarrow> bool" where
  "is_digit c = (c \<in> set ''0123456789'')"

definition ident_start :: "char \<Rightarrow> bool" where
  "ident_start c = (c \<in> set ''abcdefghijklmnopqrstuvwxyzABCDEFGHIJKLMNOPQRSTUVWXYZ_'')"

definition ident_char :: "char \<Rightarrow> bool" where
  "ident_char c = (ident_start c \<or> is_digit c)"

definition is_quote :: "char \<Rightarrow> bool" where
  \<open>is_quote c = (c = CHR 0x22 \<or> c = CHR 0x27)\<close>

datatype lex_state =
    Idle
  | In_name string
  | In_number string
  | In_string char string bool
  | In_comment

text \<open>What the lexer does with a character that starts a new token.\<close>

definition begin_token :: "char \<Rightarrow> token list \<times> lex_state" where
  "begin_token c =
     (if c = CHR ''#'' then ([], In_comment)
      else if c = CHR '' '' \<or> c = CHR 0x09 then ([], Idle)
      else if ident_start c then ([], In_name [c])
      else if is_digit c then ([], In_number [c])
      else if is_quote c then ([], In_string c [] False)
      else ([Op c], Idle))"

fun lex :: "lex_state \<Rightarrow> string \<Rightarrow> token list" where
  "lex Idle [] = []"
| "lex (In_name acc) [] = [Name (rev acc)]"
| "lex (In_number acc) [] = [Number (rev acc)]"
| "lex (In_string q acc esc) [] = [Str (rev acc)]"
| "lex In_comment [] = []"
| "lex Idle (c # cs) = (case begin_token c of (ts, st) \<Rightarrow> ts @ lex st cs)"
| "lex (In_name acc) (c # cs) =
     (if ident_char c then lex (In_name (c # acc)) cs
      else case begin_token c of (ts, st) \<Rightarrow> Name (rev acc) # ts @ lex st cs)"
| "lex (In_number acc) (c # cs) =
     (if ident_char c \<or> c = CHR ''.'' then lex (In_number (c # acc)) cs
      else case begin_token c of (ts, st) \<Rightarrow> Number (rev acc) # ts @ lex st cs)"
| "lex (In_string q acc esc) (c # cs) =
     (if esc then lex (In_string q (c # acc) False) cs
      else if c = CHR 0x5C then lex (In_string q (c # acc) True) cs
      else if c = q then Str (rev acc) # lex Idle cs
      else lex (In_string q (c # acc) False) cs)"
| "lex In_comment (c # cs) = []"

definition tokens_of_line :: "string \<Rightarrow> token list" where
  "tokens_of_line l = lex Idle l"

text \<open>All tokens of a cell, line after line.\<close>

definition tokens :: "cell \<Rightarrow> token list" where
  "tokens c = concat (map tokens_of_line (source c))"

definition names :: "cell \<Rightarrow> string list" where
  "names c = concat (map (\<lambda>t. case t of Name n \<Rightarrow> [n] | _ \<Rightarrow> []) (tokens c))"

definition uses_any :: "string list \<Rightarrow> cell \<Rightarrow> bool" where
  "uses_any ks c = list_ex (\<lambda>k. k \<in> set (names c)) ks"

text \<open>
  A statement is a logical line: physical lines are joined while a bracket opened on
  one of them is still open. Blank lines and comment lines yield no statement. The
  header of a compound statement (\<open>def\<close>, \<open>for\<close>) and each line of its body are
  statements of their own.
\<close>

definition opens_bracket :: "token \<Rightarrow> bool" where
  "opens_bracket t = (t \<in> Op ` set ''([{'')"

definition closes_bracket :: "token \<Rightarrow> bool" where
  "closes_bracket t = (t \<in> Op ` set '')]}'')"

definition depth_change :: "token list \<Rightarrow> int" where
  "depth_change ts = int (length (filter opens_bracket ts)) - int (length (filter closes_bracket ts))"

fun join_lines :: "token list \<Rightarrow> int \<Rightarrow> token list list \<Rightarrow> token list list" where
  "join_lines acc d [] = (if acc = [] then [] else [acc])"
| "join_lines acc d (l # ls) =
     (if 0 < d + depth_change l then join_lines (acc @ l) (d + depth_change l) ls
      else if acc @ l = [] then join_lines [] 0 ls
      else (acc @ l) # join_lines [] 0 ls)"

definition statements :: "cell \<Rightarrow> token list list" where
  "statements c = join_lines [] 0 (map tokens_of_line (source c))"

definition py_keywords :: "string list" where
  "py_keywords =
     [''False'', ''None'', ''True'', ''and'', ''as'', ''assert'', ''async'', ''await'',
      ''break'', ''class'', ''continue'', ''def'', ''del'', ''elif'', ''else'', ''except'',
      ''finally'', ''for'', ''from'', ''global'', ''if'', ''import'', ''in'', ''is'',
      ''lambda'', ''nonlocal'', ''not'', ''or'', ''pass'', ''raise'', ''return'', ''try'',
      ''while'', ''with'', ''yield'']"

text \<open>
  The names that are called: a name directly followed by an opening parenthesis, unless
  it is a keyword or the name a \<open>def\<close> introduces.
\<close>

fun call_names :: "token list \<Rightarrow> string list" where
  "call_names [] = []"
| "call_names (Name d # Name f # ts) =
     (if d = ''def'' then call_names ts else call_names (Name f # ts))"
| "call_names (Name f # Op p # ts) =
     (if p = CHR ''('' \<and> f \<notin> set py_keywords then f # call_names ts else call_names ts)"
| "call_names (t # ts) = call_names ts"

definition calls :: "cell \<Rightarrow> string list" where
  "calls c = call_names (tokens c)"

definition invokes :: "string \<Rightarrow> notebook \<Rightarrow> bool" where
  "invokes f nb = list_ex (\<lambda>c. f \<in> set (calls c)) (cells nb)"

text \<open>The text a cell wrote to stdout when it was run.\<close>

definition stdout :: "cell \<Rightarrow> string list" where
  "stdout c = concat (map (\<lambda>out. case out of Stream ls \<Rightarrow> ls | _ \<Rightarrow> []) (outputs c))"

text \<open>
  Cells are pointed at by the title of their notebook and their execution counter, the
  \<open>In [n]\<close> a notebook shows beside a cell.
\<close>

definition where_cells :: "(cell \<Rightarrow> bool) \<Rightarrow> (string \<times> nat option) list" where
  "where_cells P =
     concat (map (\<lambda>nb. map (\<lambda>c. (title nb, execution_count c)) (filter P (cells nb)))
       repository)"

section \<open>The shape of a cell\<close>

definition library_calls :: "cell \<Rightarrow> string list" where
  "library_calls c = filter (\<lambda>f. f \<noteq> ''print'') (calls c)"

definition print_calls :: "cell \<Rightarrow> string list" where
  "print_calls c = filter (\<lambda>f. f = ''print'') (calls c)"

definition single_call_plus_print :: "cell \<Rightarrow> bool" where
  "single_call_plus_print c = (length (library_calls c) = 1 \<and> length (print_calls c) = 1)"

definition branching_keywords :: "string list" where
  "branching_keywords = [''if'', ''elif'', ''else'', ''for'', ''while'']"

definition failure_keywords :: "string list" where
  "failure_keywords = [''try'', ''except'', ''finally'', ''raise'', ''assert'']"

definition concurrency_names :: "string list" where
  "concurrency_names =
     [''threading'', ''multiprocessing'', ''asyncio'', ''concurrent'', ''subprocess'',
      ''sched'', ''signal'', ''queue'', ''async'', ''await'', ''yield'', ''Thread'',
      ''Process'', ''Pool'', ''ThreadPoolExecutor'', ''ProcessPoolExecutor'', ''Timer'',
      ''Lock'', ''fork'', ''sleep'', ''cancel'']"

text \<open>The shape the specification gives every code cell.\<close>

definition plain_cell :: "cell \<Rightarrow> bool" where
  "plain_cell c =
     (single_call_plus_print c \<and> \<not> uses_any branching_keywords c \<and>
      \<not> uses_any failure_keywords c \<and> \<not> uses_any concurrency_names c \<and>
      \<not> uses_any [''class''] c)"

section \<open>Assignments and solver calls\<close>

text \<open>The variable a statement assigns, and the name it hands to a \<open>solve\<close> method.\<close>

fun assigned_name :: "token list \<Rightarrow> string option" where
  "assigned_name (Name v # Op e # Op e2 # ts) =
     (if e = CHR ''='' \<and> e2 \<noteq> CHR ''='' then Some v else None)"
| "assigned_name (Name v # Op e # ts) = (if e = CHR ''='' then Some v else None)"
| "assigned_name ts = None"

fun solve_argument :: "token list \<Rightarrow> string option" where
  "solve_argument (Op d # Name m # Op p # Name a # Op q # ts) =
     (if d = CHR ''.'' \<and> m = ''solve'' \<and> p = CHR ''('' \<and> q = CHR '')'' then Some a
      else solve_argument (Name m # Op p # Name a # Op q # ts))"
| "solve_argument (t # ts) = solve_argument ts"
| "solve_argument [] = None"

section \<open>Failures\<close>

text \<open>
  A cell runs its statements in order. What the library does at the \<open>i\<close>-th statement
  is not the repository's: \<open>raises i\<close> is \<open>None\<close> when the statement returns and
  \<open>Some e\<close> when it raises \<open>e\<close>. Python hands an exception to a handler only from
  inside a \<open>try\<close> or \<open>with\<close> statement; the model takes every statement after
  such a header as guarded, which is more than Python guards. An exception outside
  a guard ends the cell, and the notebook shows its traceback as the cell's output.
\<close>

datatype 'e cell_result = Completed | Traceback 'e

definition handling_keywords :: "string list" where
  "handling_keywords = [''try'', ''except'', ''finally'', ''raise'', ''assert'', ''while'', ''with'']"

definition opens_handler :: "token list \<Rightarrow> bool" where
  "opens_handler s = (case s of Name k # _ \<Rightarrow> k = ''try'' \<or> k = ''with'' | _ \<Rightarrow> False)"

fun run :: "(nat \<Rightarrow> 'e option) \<Rightarrow> bool \<Rightarrow> nat \<Rightarrow> token list list \<Rightarrow> 'e cell_result" where
  "run raises guarded i [] = Completed"
| "run raises guarded i (s # ss) =
     (if opens_handler s then run raises True (Suc i) ss
      else case raises i of
             None \<Rightarrow> run raises guarded (Suc i) ss
           | Some e \<Rightarrow> if guarded then run raises guarded (Suc i) ss else Traceback e)"

definition run_cell :: "(nat \<Rightarrow> 'e option) \<Rightarrow> cell \<Rightarrow> 'e cell_result" where
  "run_cell raises c = run raises False 0 (statements c)"

text \<open>The first statement that raises, if any.\<close>

fun first_failure :: "(nat \<Rightarrow> 'e option) \<Rightarrow> nat \<Rightarrow> 'a list \<Rightarrow> 'e cell_result" where
  "first_failure raises i [] = Completed"
| "first_failure raises i (s # ss) =
     (case raises i of None \<Rightarrow> first_failure raises (Suc i) ss | Some e \<Rightarrow> Traceback e)"

section \<open>Constructor calls\<close>

text \<open>The arguments of a call: the tokens up to the closing parenthesis, split at the
  commas that stand outside every inner bracket.\<close>

fun split_args :: "nat \<Rightarrow> token list \<Rightarrow> token list \<Rightarrow> token list list" where
  "split_args d cur [] = (if cur = [] then [] else [cur])"
| "split_args d cur (t # ts) =
     (if opens_bracket t then split_args (Suc d) (cur @ [t]) ts
      else if closes_bracket t then
        (if d = 0 then (if cur = [] then [] else [cur])
         else split_args (d - 1) (cur @ [t]) ts)
      else if t = Op CHR '','' \<and> d = 0 then cur # split_args 0 [] ts
      else split_args d (cur @ [t]) ts)"

fun call_args :: "string \<Rightarrow> token list \<Rightarrow> token list list list" where
  "call_args f [] = []"
| "call_args f (Name g # Op p # ts) =
     (if g = f \<and> p = CHR ''('' then split_args 0 [] ts # call_args f ts
      else call_args f ts)"
| "call_args f (t # ts) = call_args f ts"

datatype argument = Positional "token list" | Keyword string "token list"

fun classify_arg :: "token list \<Rightarrow> argument" where
  "classify_arg (Name k # Op e # Op e2 # v) =
     (if e = CHR ''='' \<and> e2 \<noteq> CHR ''='' then Keyword k (Op e2 # v)
      else Positional (Name k # Op e # Op e2 # v))"
| "classify_arg (Name k # Op e # v) =
     (if e = CHR ''='' then Keyword k v else Positional (Name k # Op e # v))"
| "classify_arg ts = Positional ts"

definition constructor_calls :: "string \<Rightarrow> argument list list" where
  "constructor_calls f =
     concat (map (\<lambda>c. map (map classify_arg) (call_args f (tokens c))) code_cells)"

text \<open>
  Python binds the arguments of a call to the parameters of a signature: a positional
  argument takes the next parameter, a keyword argument the parameter it names. The
  result lists the parameters in the order the call binds them.
\<close>

fun bind_args :: "string list \<Rightarrow> argument list \<Rightarrow> string list option" where
  "bind_args params [] = Some []"
| "bind_args params (Positional v # as) =
     (case params of [] \<Rightarrow> None | p # ps \<Rightarrow> map_option ((#) p) (bind_args ps as))"
| "bind_args params (Keyword k v # as) =
     (if k \<in> set params then map_option ((#) k) (bind_args (removeAll k params) as)
      else None)"

text \<open>The two signatures as the specification lists them.\<close>

definition grover_signature :: "string list" where
  "grover_signature = [''num_value_qubits'', ''num_iterations'', ''sampler'']"

definition portfolio_signature :: "string list" where
  "portfolio_signature = [''expected_returns'', ''covariances'', ''risk_factor'', ''budget'']"

section \<open>Entity types\<close>

definition is_import :: "token list \<Rightarrow> bool" where
  "is_import s = (case s of Name k # _ \<Rightarrow> k = ''import'' \<or> k = ''from'' | _ \<Rightarrow> False)"

definition is_magic :: "token list \<Rightarrow> bool" where
  "is_magic s = (case s of Op p # _ \<Rightarrow> p = CHR ''%'' | _ \<Rightarrow> False)"

text \<open>
  A field read: a dot and a name that is neither called nor assigned to. In
  \<open>obj.field = value\<close> the field is written, not read; in \<open>obj.field == value\<close> it
  is read.
\<close>

fun stores_next :: "token list \<Rightarrow> bool" where
  "stores_next (Op e # Op e2 # ts) = (e = CHR ''='' \<and> e2 \<noteq> CHR ''='')"
| "stores_next [Op e] = (e = CHR ''='')"
| "stores_next (Op e # t # ts) = (e = CHR ''='')"
| "stores_next ts = False"

fun reads_field :: "token list \<Rightarrow> bool" where
  "reads_field (Op d # Name a # t # ts) =
     (if d = CHR ''.'' \<and> t \<noteq> Op CHR ''('' \<and> \<not> stores_next (t # ts) then True
      else reads_field (t # ts))"
| "reads_field [Op d, Name a] = (d = CHR ''.'')"
| "reads_field (t # ts) = reads_field ts"
| "reads_field [] = False"

text \<open>
  A statement that constructs an instance calls something; one that reads a field has
  a field read. A cell that merely constructs instances and reads result fields has,
  apart from its imports and notebook magics, only such statements.
\<close>

definition constructs_or_reads :: "token list \<Rightarrow> bool" where
  "constructs_or_reads s = (reads_field s \<or> call_names s \<noteq> [])"

definition merely_constructs_and_reads :: "cell \<Rightarrow> bool" where
  "merely_constructs_and_reads c =
     list_all (\<lambda>s. is_import s \<or> is_magic s \<or> constructs_or_reads s) (statements c)"

text \<open>A statement that only applies arithmetic operators: no call, no field read.\<close>

definition arithmetic_only :: "token list \<Rightarrow> bool" where
  "arithmetic_only s =
     (\<not> is_import s \<and> call_names s = [] \<and> \<not> reads_field s \<and>
      list_ex (\<lambda>t. t \<in> Op ` set ''+-*/'') s)"

section \<open>Order of execution and state\<close>


text \<open>
  A statement writes state when it assigns: an equals sign outside every bracket that
  is not part of a comparison (\<open>==\<close>, \<open>!=\<close>, \<open><=\<close>, \<open>>=\<close>). It binds a name, or
  it sets an attribute of the object a name holds.
\<close>

definition depth_after :: "nat \<Rightarrow> token \<Rightarrow> nat" where
  "depth_after d t = (if opens_bracket t then Suc d else if closes_bracket t then d - 1 else d)"

fun assigns :: "nat \<Rightarrow> token list \<Rightarrow> bool" where
  "assigns d [] = False"
| "assigns d (Op a # Op b # ts) =
     (if b = CHR ''='' \<and> a \<in> set ''=!<>'' then assigns d ts
      else if a = CHR ''='' \<and> d = 0 then True
      else assigns (depth_after d (Op a)) (Op b # ts))"
| "assigns d (t # ts) =
     (if t = Op CHR ''='' \<and> d = 0 then True else assigns (depth_after d t) ts)"

definition binds_name :: "token list \<Rightarrow> bool" where
  "binds_name s = (case assigned_name s of Some v \<Rightarrow> True | None \<Rightarrow> False)"

fun attribute_set :: "token list \<Rightarrow> (string \<times> string) option" where
  "attribute_set (Name obj # Op d # Name a # Op e # Op e2 # ts) =
     (if d = CHR ''.'' \<and> e = CHR ''='' \<and> e2 \<noteq> CHR ''='' then Some (obj, a) else None)"
| "attribute_set (Name obj # Op d # Name a # Op e # ts) =
     (if d = CHR ''.'' \<and> e = CHR ''='' then Some (obj, a) else None)"
| "attribute_set ts = None"

definition sets_attribute :: "token list \<Rightarrow> bool" where
  "sets_attribute s = (case attribute_set s of Some oa \<Rightarrow> True | None \<Rightarrow> False)"


text \<open>
  The names an import statement binds: of each item after \<open>import\<close> the name behind
  \<open>as\<close>, or else its first name. An object bound by an import is the library's, not
  the notebook's.
\<close>

definition import_item :: "token list \<Rightarrow> string list" where
  "import_item item =
     (case dropWhile (\<lambda>t. t \<noteq> Name ''as'') item of
        a # Name b # r \<Rightarrow> [b]
      | _ \<Rightarrow> (case item of Name a # r \<Rightarrow> [a] | _ \<Rightarrow> []))"

definition imported_names :: "token list \<Rightarrow> string list" where
  "imported_names s =
     (if is_import s then
        concat (map import_item (split_args 0 [] (drop 1 (dropWhile (\<lambda>t. t \<noteq> Name ''import'') s))))
      else [])"

definition nb_statements :: "notebook \<Rightarrow> token list list" where
  "nb_statements nb = concat (map statements (cells nb))"





section \<open>Problem, solver, printed result\<close>

text \<open>
  The statement \<open>r = s.solve(a)\<close> gives the result, the solver and the problem. The
  statement \<open>v = C(...)\<close> constructs \<open>v\<close> by a call of \<open>C\<close>. A statement prints
  \<open>r\<close> when it calls \<open>print\<close>, or the portfolio notebook's \<open>print_result\<close>, with
  \<open>r\<close> among the arguments.
\<close>

fun solve_call :: "token list \<Rightarrow> (string \<times> string \<times> string) option" where
  "solve_call [Name r, Op e, Name s, Op d, Name m, Op p, Name a, Op q] =
     (if e = CHR ''='' \<and> d = CHR ''.'' \<and> m = ''solve'' \<and> p = CHR ''('' \<and> q = CHR '')''
      then Some (r, s, a) else None)"
| "solve_call ts = None"

fun construction :: "token list \<Rightarrow> (string \<times> string) option" where
  "construction (Name v # Op e # Name c # Op p # ts) =
     (if e = CHR ''='' \<and> p = CHR ''('' then Some (v, c) else None)"
| "construction ts = None"

definition prints_variable :: "string \<Rightarrow> token list \<Rightarrow> bool" where
  "prints_variable r s =
     (case s of
        Name f # Op p # args \<Rightarrow>
          p = CHR ''('' \<and> (f = ''print'' \<or> f = ''print_result'') \<and> Name r \<in> set args
      | _ \<Rightarrow> False)"

text \<open>Whether \<open>r\<close> is printed before it is assigned again.\<close>

fun printed_next :: "string \<Rightarrow> token list list \<Rightarrow> bool" where
  "printed_next r [] = False"
| "printed_next r (s # ss) =
     (if prints_variable r s then True
      else if assigned_name s = Some r then False
      else printed_next r ss)"

text \<open>
  The pattern of the specification, over the statements of a notebook in order: a
  variable assigned earlier (the problem) is passed to the \<open>solve\<close> method of a
  variable constructed by a call of an imported name (the library's solver), and the
  result is printed before it is assigned again. Every such \<open>solve\<close> contributes
  the problem, the imported name that constructs the solver, and the result.
\<close>

fun pattern_instances ::
  "string list \<Rightarrow> (string \<times> string) list \<Rightarrow> string list \<Rightarrow> token list list \<Rightarrow>
   (string \<times> string \<times> string) list"
where
  "pattern_instances imported solvers defined [] = []"
| "pattern_instances imported solvers defined (s # ss) =
     (case solve_call s of
        Some (r, sv, a) \<Rightarrow>
          (case map_of solvers sv of
             Some c \<Rightarrow> if a \<in> set defined \<and> printed_next r ss then [(a, c, r)] else []
           | None \<Rightarrow> [])
      | None \<Rightarrow> []) @
     pattern_instances (imported_names s @ imported)
       (case construction s of
          Some (v, c) \<Rightarrow> if c \<in> set imported then (v, c) # solvers else solvers
        | None \<Rightarrow> solvers)
       (case assigned_name s of Some v \<Rightarrow> v # defined | None \<Rightarrow> defined) ss"

definition instances :: "notebook \<Rightarrow> (string \<times> string \<times> string) list" where
  "instances nb = pattern_instances [] [] [] (nb_statements nb)"

definition follows_pattern :: "notebook \<Rightarrow> bool" where
  "follows_pattern nb = (instances nb \<noteq> [])"

text \<open>How often a notebook calls \<open>solve\<close>, in whatever form.\<close>

definition solve_calls :: "notebook \<Rightarrow> nat" where
  "solve_calls nb = length (filter (\<lambda>f. f = ''solve'') (concat (map calls (cells nb))))"

text \<open>The calls that build the problems a notebook solves: the calls in the statements
  that assign a variable handed to \<open>solve\<close>.\<close>

definition builders_of :: "string list \<Rightarrow> token list list \<Rightarrow> string list list" where
  "builders_of solved ss =
     map call_names
       (filter (\<lambda>s. case assigned_name s of Some v \<Rightarrow> v \<in> set solved | None \<Rightarrow> False) ss)"

definition problem_builders :: "notebook \<Rightarrow> string list list" where
  "problem_builders nb = builders_of (map fst (instances nb)) (nb_statements nb)"

text \<open>
  The kind of a cell, by its statements: empty; imports only; a printing cell, whose
  last statement is a call of \<open>print\<close>; a silent cell, whose last statement is an
  assignment, an import or a magic; or else a displaying cell, whose last statement
  is an expression, the value of which a notebook shows. Beside it, the kinds of the
  outputs a cell recorded.
\<close>

datatype cell_kind = Empty_cell | Imports_cell | Printing_cell | Displaying_cell | Silent_cell

definition calls_print :: "token list \<Rightarrow> bool" where
  "calls_print s = (case s of Name f # Op p # r \<Rightarrow> f = ''print'' \<and> p = CHR ''('' | _ \<Rightarrow> False)"

definition cell_kind :: "cell \<Rightarrow> cell_kind" where
  "cell_kind c =
     (case rev (statements c) of
        [] \<Rightarrow> Empty_cell
      | s # r \<Rightarrow>
          if list_all is_import (statements c) then Imports_cell
          else if calls_print s then Printing_cell
          else if assigns 0 s \<or> is_import s \<or> is_magic s then Silent_cell
          else Displaying_cell)"

datatype output_kind = Stdout | Value | Rich

definition output_kinds :: "cell \<Rightarrow> output_kind list" where
  "output_kinds c =
     map (\<lambda>out. case out of Stream ls \<Rightarrow> Stdout | Execute_result \<Rightarrow> Value | Display_data \<Rightarrow> Rich)
       (outputs c)"

section \<open>Recorded output\<close>

text \<open>
  The numbers a cell printed are read as the decimal numerals they are: an optional
  minus sign, digits, and digits after a point. Nothing is rounded.
\<close>

fun strip_prefix :: "string \<Rightarrow> string \<Rightarrow> string option" where
  "strip_prefix [] s = Some s"
| "strip_prefix (p # ps) [] = None"
| "strip_prefix (p # ps) (c # cs) = (if p = c then strip_prefix ps cs else None)"

text \<open>The lines that start with a label, without the label.\<close>

definition labelled :: "string \<Rightarrow> string list \<Rightarrow> string list" where
  "labelled p ls = List.map_filter (strip_prefix p) ls"

definition digit_value :: "char \<Rightarrow> int option" where
  "digit_value =
     map_of [(CHR ''0'', 0), (CHR ''1'', 1), (CHR ''2'', 2), (CHR ''3'', 3), (CHR ''4'', 4),
             (CHR ''5'', 5), (CHR ''6'', 6), (CHR ''7'', 7), (CHR ''8'', 8), (CHR ''9'', 9)]"

fun parse_digits :: "int \<Rightarrow> string \<Rightarrow> int option" where
  "parse_digits n [] = Some n"
| "parse_digits n (c # cs) =
     (case digit_value c of None \<Rightarrow> None | Some d \<Rightarrow> parse_digits (10 * n + d) cs)"

definition parse_unsigned :: "string \<Rightarrow> rat option" where
  "parse_unsigned s =
     (let ip = takeWhile (\<lambda>c. c \<noteq> CHR ''.'') s; fp = drop (Suc (length ip)) s
      in if ip = [] then None
         else case (parse_digits 0 ip, parse_digits 0 fp) of
                (Some i, Some f) \<Rightarrow> Some (of_int i + of_int f / 10 ^ length fp)
              | _ \<Rightarrow> None)"

definition parse_decimal :: "string \<Rightarrow> rat option" where
  "parse_decimal s =
     (case s of
        c # cs \<Rightarrow> if c = CHR ''-'' then map_option uminus (parse_unsigned cs)
                  else parse_unsigned s
      | [] \<Rightarrow> None)"

fun split_on :: "char \<Rightarrow> string \<Rightarrow> string list" where
  "split_on d [] = [[]]"
| "split_on d (c # cs) =
     (case split_on d cs of
        w # ws \<Rightarrow> if c = d then [] # w # ws else (c # w) # ws
      | [] \<Rightarrow> [[c]])"

subsection \<open>The result of an optimizer\<close>

text \<open>What \<open>prettyprint\<close> of an optimization result shows: the objective
  function value, the value of each variable, and the status.\<close>

record report =
  fval :: rat
  variables :: "(string \<times> rat) list"
  status :: string

definition parse_binding :: "string \<Rightarrow> (string \<times> rat) option" where
  "parse_binding s =
     (case split_on CHR ''='' (dropWhile (\<lambda>c. c = CHR '' '') s) of
        [n, v] \<Rightarrow> map_option (Pair n) (parse_decimal v)
      | _ \<Rightarrow> None)"

definition parse_report :: "string list \<Rightarrow> report option" where
  "parse_report ls =
     (case (labelled ''objective function value: '' ls, labelled ''variable values: '' ls,
            labelled ''status: '' ls) of
        ([f], [vs], [st]) \<Rightarrow>
          (case (parse_decimal f, those (map parse_binding (split_on CHR '','' vs))) of
             (Some v, Some bs) \<Rightarrow> Some \<lparr>fval = v, variables = bs, status = st\<rparr>
           | _ \<Rightarrow> None)
      | _ \<Rightarrow> None)"

text \<open>
  The objective of the Grover notebook, as its second code cell hands it to
  \<open>model.minimize\<close>; \<open>x0\<close>, \<open>x1\<close> and \<open>x2\<close> are declared by \<open>binary_var\<close>.
\<close>

definition objective :: "int \<Rightarrow> int \<Rightarrow> int \<Rightarrow> int" where
  "objective x0 x1 x2 = - x0 + 2 * x1 - 3 * x2 - 2 * x0 * x2 - 1 * x1 * x2"

text \<open>
  To compare the definition with the notebook, the tokens of a polynomial are read as
  a sum of signed products of numbers and variables, the variables taken from an
  environment.
\<close>

fun factor_value :: "(string \<Rightarrow> int) \<Rightarrow> token \<Rightarrow> int option" where
  "factor_value env (Name v) = Some (env v)"
| "factor_value env (Number n) = parse_digits 0 n"
| "factor_value env t = None"

fun term_value :: "(string \<Rightarrow> int) \<Rightarrow> token list \<Rightarrow> int option" where
  "term_value env [t] = factor_value env t"
| "term_value env (t # Op m # ts) =
     (if m = CHR ''*'' then
        (case (factor_value env t, term_value env ts) of
           (Some a, Some b) \<Rightarrow> Some (a * b)
         | _ \<Rightarrow> None)
      else None)"
| "term_value env ts = None"

fun signed_terms :: "bool \<Rightarrow> token list \<Rightarrow> token list \<Rightarrow> (bool \<times> token list) list" where
  "signed_terms neg cur [] = [(neg, cur)]"
| "signed_terms neg cur (t # ts) =
     (if t = Op CHR ''+'' then (neg, cur) # signed_terms False [] ts
      else if t = Op CHR ''-'' then (neg, cur) # signed_terms True [] ts
      else signed_terms neg (cur @ [t]) ts)"

fun sum_terms :: "(string \<Rightarrow> int) \<Rightarrow> (bool \<times> token list) list \<Rightarrow> int option" where
  "sum_terms env [] = Some 0"
| "sum_terms env ((neg, cur) # r) =
     (case (term_value env cur, sum_terms env r) of
        (Some a, Some b) \<Rightarrow> Some ((if neg then - a else a) + b)
      | _ \<Rightarrow> None)"

definition poly_value :: "(string \<Rightarrow> int) \<Rightarrow> token list \<Rightarrow> int option" where
  "poly_value env ts =
     (case signed_terms False [] ts of
        (neg, []) # r \<Rightarrow> sum_terms env r
      | r \<Rightarrow> sum_terms env r)"

text \<open>The argument of \<open>model.minimize\<close> in the Grover notebook, and the objective
  as the notebook printed it: the line under \<open>Minimize\<close>.\<close>

definition minimized :: "token list" where
  "minimized = (case call_args ''minimize'' (tokens grover_cell_5) of [[e]] \<Rightarrow> e | _ \<Rightarrow> [])"

definition printed_objective :: "token list" where
  "printed_objective =
     (case dropWhile (\<lambda>l. l \<noteq> ''Minimize'') (stdout grover_cell_5) of
        h # l # ls \<Rightarrow> tokens_of_line l
      | _ \<Rightarrow> [])"

definition assignment :: "int \<Rightarrow> int \<Rightarrow> int \<Rightarrow> string \<Rightarrow> int" where
  "assignment x0 x1 x2 v = (if v = ''x0'' then x0 else if v = ''x1'' then x1 else x2)"

subsection \<open>Excited-state energies\<close>

text \<open>
  A printed electronic-structure result starts with the ground-state header. A cell
  that prints several results shows them one after the other.
\<close>

definition ground_state_header :: string where
  "ground_state_header = ''=== GROUND STATE ENERGY ===''"

definition reports :: "string list \<Rightarrow> string list list" where
  "reports ls =
     snd (foldr (\<lambda>l (pending, finished).
                  if l = ground_state_header then ([], (l # pending) # finished)
                  else (l # pending, finished))
            ls ([], []))"

definition total_excited_energies :: "string list \<Rightarrow> rat list option" where
  "total_excited_energies rep =
     those (map parse_decimal (labelled ''> Total excited state energy (Hartree): '' rep))"

text \<open>
  The fifth code cell of the excited-states notebook prints \<open>numpy_results\<close> and then
  \<open>qeom_results\<close>; the sixth prints \<open>new_numpy_results\<close>, computed with the
  notebook's own \<open>filter_criterion\<close>.
\<close>

text \<open>The variables a cell prints: the statements \<open>print(v)\<close> for a name \<open>v\<close>.\<close>

fun printed_variable :: "token list \<Rightarrow> string option" where
  "printed_variable [Name f, Op p, Name v, Op q] =
     (if f = ''print'' \<and> p = CHR ''('' \<and> q = CHR '')'' then Some v else None)"
| "printed_variable s = None"

definition printed_variables :: "cell \<Rightarrow> string list" where
  "printed_variables c = List.map_filter printed_variable (statements c)"

definition qeom_energies :: "rat list option" where
  "qeom_energies =
     (case reports (stdout excited_cell_10) of
        [numpy_report, qeom_report] \<Rightarrow> total_excited_energies qeom_report
      | _ \<Rightarrow> None)"

definition numpy_energies :: "rat list option" where
  "numpy_energies =
     (case reports (stdout excited_cell_12) of
        [new_numpy_report] \<Rightarrow> total_excited_energies new_numpy_report
      | _ \<Rightarrow> None)"

text \<open>Two lists of energies agree when the states listed in both differ by less than
  the tolerance.\<close>

definition agree_within :: "rat \<Rightarrow> rat list \<Rightarrow> rat list \<Rightarrow> bool" where
  "agree_within tol es fs = list_all (\<lambda>(e, f). \<bar>e - f\<bar> < tol) (zip es fs)"

section \<open>The helper \<open>print_result\<close> of the portfolio notebook\<close>

text \<open>
  \<^verbatim>\<open>
  def print_result(result):
      selection = result.x
      value = result.fval
      print("Optimal: selection {}, value {:.4f}".format(selection, value))

      eigenstate = result.min_eigen_solver_result.eigenstate
      probabilities = (
          eigenstate.binary_probabilities()
          if isinstance(eigenstate, QuasiDistribution)
          else {k: np.abs(v) ** 2 for k, v in eigenstate.to_dict().items()}
      )
      print(...)   # three lines of table header
      probabilities = sorted(probabilities.items(), key=lambda x: x[1], reverse=True)

      for k, v in probabilities:
          x = np.array([int(i) for i in list(reversed(k))])
          value = portfolio.to_quadratic_program().objective.evaluate(x)
          print("%10s\t%.4f\t\t%.4f" % (x, value, v))
  \<close>
  The eigenstate of a result is either a quasi-distribution or a state vector; both
  are taken by the items of the dictionary the library returns for them, in the
  dictionary's order. The objective's \<open>evaluate\<close> belongs to the library and is a
  parameter. What the function prints is modelled before formatting: a line is the
  tuple of values handed to the format string, and a string literal is kept as the
  source writes it, its escape sequences unexpanded. Probabilities are real numbers.
  Printing is an effect, so the function returns the lines printed so far together
  with the exception that ended it, if any.
\<close>

datatype py_error = ValueError | Library_error string

datatype eigenstate =
    QuasiDistribution "(string \<times> real) list"
  | Statevector "(string \<times> complex) list"

record optimization_result =
  result_x :: "real list"
  result_fval :: real
  result_eigenstate :: eigenstate

datatype printed =
    Optimal "real list" real
  | Text string
  | Row "int list" real real

text \<open>\<open>np.abs(v) ** 2\<close> of an amplitude.\<close>

definition abs_squared :: "complex \<Rightarrow> real" where
  "abs_squared v = (cmod v)\<^sup>2"

fun probabilities :: "eigenstate \<Rightarrow> (string \<times> real) list" where
  "probabilities (QuasiDistribution d) = d"
| "probabilities (Statevector d) = map (\<lambda>(k, v). (k, abs_squared v)) d"

text \<open>Python's \<open>sorted(..., key=key, reverse=True)\<close>: descending, and stable, so
  that items with equal keys keep their order.\<close>

definition sorted_reverse :: "('a \<Rightarrow> 'k::linorder) \<Rightarrow> 'a list \<Rightarrow> 'a list" where
  "sorted_reverse key xs = rev (sort_key key (rev xs))"

text \<open>\<open>int(i)\<close> of a one-character string: the digit, or a \<open>ValueError\<close>.\<close>

definition py_int :: "char \<Rightarrow> py_error + int" where
  "py_int c = (case digit_value c of Some d \<Rightarrow> Inr d | None \<Rightarrow> Inl ValueError)"

fun int_list :: "string \<Rightarrow> py_error + int list" where
  "int_list [] = Inr []"
| "int_list (c # cs) =
     (case py_int c of
        Inl e \<Rightarrow> Inl e
      | Inr d \<Rightarrow> (case int_list cs of Inl e \<Rightarrow> Inl e | Inr ds \<Rightarrow> Inr (d # ds)))"

fun print_rows ::
  "(int list \<Rightarrow> py_error + real) \<Rightarrow> (string \<times> real) list \<Rightarrow> printed list \<times> py_error option"
where
  "print_rows evaluate [] = ([], None)"
| "print_rows evaluate ((k, v) # kvs) =
     (case int_list (rev k) of
        Inl e \<Rightarrow> ([], Some e)
      | Inr x \<Rightarrow>
          (case evaluate x of
             Inl e \<Rightarrow> ([], Some e)
           | Inr val \<Rightarrow>
               (case print_rows evaluate kvs of (out, err) \<Rightarrow> (Row x val v # out, err))))"

definition table_header :: "printed list" where
  \<open>table_header =
     [Text ([CHR 0x5C] @ ''n----------------- Full result ---------------------''),
      Text (''selection'' @ [CHR 0x5C] @ ''tvalue'' @ [CHR 0x5C] @ ''t'' @ [CHR 0x5C] @ ''tprobability''),
      Text ''---------------------------------------------------'']\<close>

definition print_result ::
  "(int list \<Rightarrow> py_error + real) \<Rightarrow> optimization_result \<Rightarrow> printed list \<times> py_error option"
where
  "print_result evaluate result =
     (case print_rows evaluate (sorted_reverse snd (probabilities (result_eigenstate result))) of
        (rows, err) \<Rightarrow>
          (Optimal (result_x result) (result_fval result) # table_header @ rows, err))"

text \<open>The rows of the printed table, as (selection, value, probability).\<close>

definition table_rows :: "printed list \<Rightarrow> (int list \<times> real \<times> real) list" where
  "table_rows out =
     concat (map (\<lambda>p. case p of Row x val v \<Rightarrow> [(x, val, v)] | _ \<Rightarrow> []) out)"

text \<open>The selection vector of a bitstring key: its characters from last to first, each
  as the number it denotes.\<close>

definition selection_of :: "string \<Rightarrow> int list" where
  "selection_of k = map (\<lambda>c. the (digit_value c)) (rev k)"

definition bitstring :: "string \<Rightarrow> bool" where
  "bitstring k = list_all (\<lambda>c. c = CHR ''0'' \<or> c = CHR ''1'') k"


text \<open>The probabilities in the rows of a table a cell printed: the last column of the
  lines that start with a selection vector.\<close>

definition recorded_probabilities :: "cell \<Rightarrow> rat list option" where
  "recorded_probabilities c =
     those (map (\<lambda>l. parse_decimal (last (split_on (CHR 0x09) l)))
              (filter (\<lambda>l. take 2 l = '' ['') (stdout c)))"

definition non_increasing :: "rat list option \<Rightarrow> bool" where
  "non_increasing ps = (case ps of Some vs \<Rightarrow> sorted_wrt (\<lambda>p q. q \<le> p) vs | None \<Rightarrow> False)"

section \<open>Evaluating the character classes\<close>

text \<open>
  The character classes read off the bits of a character (\<open>b0\<close> the lowest): digits
  are 0x30 to 0x39, letters 0x41 to 0x5A and 0x61 to 0x7A, the underscore 0x5F. These
  equations are what evaluation uses; they are proved from the definitions.
\<close>

lemma is_digit_bits [code]:
  "is_digit (Char b0 b1 b2 b3 b4 b5 b6 b7) =
     (\<not> b7 \<and> \<not> b6 \<and> b5 \<and> b4 \<and> (\<not> b3 \<or> (\<not> b2 \<and> \<not> b1)))"
  by (cases b0; cases b1; cases b2; cases b3; cases b4; cases b5; cases b6; cases b7;
      simp add: is_digit_def)

lemma ident_start_bits [code]:
  "ident_start (Char b0 b1 b2 b3 b4 b5 b6 b7) =
     (\<not> b7 \<and> b6 \<and>
      ((b0 \<or> b1 \<or> b2 \<or> b3 \<or> b4) \<and> \<not> (b4 \<and> b3 \<and> (b2 \<or> (b1 \<and> b0))) \<or>
       (\<not> b5 \<and> b4 \<and> b3 \<and> b2 \<and> b1 \<and> b0)))"
  by (cases b0; cases b1; cases b2; cases b3; cases b4; cases b5; cases b6; cases b7;
      simp add: ident_start_def)

lemma abs_squared_code [code]: "abs_squared v = (Re v)\<^sup>2 + (Im v)\<^sup>2"
  by (simp add: abs_squared_def cmod_power2)

section \<open>The recorded results of the Grover notebook\<close>

lemma grover_report:
  "parse_report (stdout grover_cell_7) =
     Some \<lparr>fval = - 6, variables = [(''x0'', 1), (''x1'', 0), (''x2'', 1)], status = ''SUCCESS''\<rparr>"
  by code_simp

lemma exact_report:
  "parse_report (stdout grover_cell_10) =
     Some \<lparr>fval = - 6, variables = [(''x0'', 1), (''x1'', 0), (''x2'', 1)], status = ''SUCCESS''\<rparr>"
  by code_simp

lemma grover_cell_calls:
  "calls grover_cell_7 = [''GroverOptimizer'', ''Sampler'', ''solve'', ''print'', ''prettyprint'']"
  by code_simp

lemma exact_cell_calls:
  "calls grover_cell_10 =
     [''MinimumEigenOptimizer'', ''NumPyMinimumEigensolver'', ''solve'', ''print'', ''prettyprint'']"
  by code_simp

lemma grover_cell_problem: "List.map_filter solve_argument (statements grover_cell_7) = [''qp'']"
  by code_simp

lemma exact_cell_problem: "List.map_filter solve_argument (statements grover_cell_10) = [''qp'']"
  by code_simp

lemma minimized_tokens:
  "minimized =
     [Op CHR ''-'', Name ''x0'', Op CHR ''+'', Number ''2'', Op CHR ''*'', Name ''x1'',
      Op CHR ''-'', Number ''3'', Op CHR ''*'', Name ''x2'', Op CHR ''-'', Number ''2'',
      Op CHR ''*'', Name ''x0'', Op CHR ''*'', Name ''x2'', Op CHR ''-'', Number ''1'',
      Op CHR ''*'', Name ''x1'', Op CHR ''*'', Name ''x2'']"
  by code_simp

lemma printed_objective_tokens:
  "printed_objective =
     [Op CHR ''-'', Number ''2'', Op CHR ''*'', Name ''x0'', Op CHR ''*'', Name ''x2'',
      Op CHR ''-'', Name ''x1'', Op CHR ''*'', Name ''x2'', Op CHR ''-'', Name ''x0'',
      Op CHR ''+'', Number ''2'', Op CHR ''*'', Name ''x1'', Op CHR ''-'', Number ''3'',
      Op CHR ''*'', Name ''x2'']"
  by code_simp

lemma objective_is_minimized:
  "poly_value (assignment x0 x1 x2) minimized = Some (objective x0 x1 x2)"
  by (simp add: minimized_tokens poly_value_def assignment_def objective_def digit_value_def)

lemma objective_is_printed:
  "poly_value (assignment x0 x1 x2) printed_objective = Some (objective x0 x1 x2)"
  by (simp add: printed_objective_tokens poly_value_def assignment_def objective_def digit_value_def)

lemma objective_minimum:
  "x0 \<in> {0, 1} \<Longrightarrow> x1 \<in> {0, 1} \<Longrightarrow> x2 \<in> {0, 1} \<Longrightarrow> objective 1 0 1 \<le> objective x0 x1 x2"
  by (auto simp: objective_def)

text \<open>
  Claim C1. The objective \<open>-2*x0*x2 - x1*x2 - x0 + 2*x1 - 3*x2\<close> is what the Grover
  notebook hands to \<open>model.minimize\<close> and what it printed for the problem. The
  notebook solves this QUBO twice: its third code cell with \<open>GroverOptimizer\<close>, its
  fourth with \<open>MinimumEigenOptimizer\<close> over \<open>NumPyMinimumEigensolver\<close>, both on the
  problem \<open>qp\<close>. The two recorded results are the same: objective function value
  -6.0 at x0 = 1, x1 = 0, x2 = 1, status SUCCESS. That value is the objective at this
  point, and no binary assignment gives a smaller one: the recorded run of
  \<open>GroverOptimizer\<close> found the global minimum.
\<close>

theorem grover_matches_exact:
  assumes "x0 \<in> {0, 1}" and "x1 \<in> {0, 1}" and "x2 \<in> {0, 1}"
  shows "poly_value (assignment x0 x1 x2) minimized = Some (objective x0 x1 x2) \<and>
         poly_value (assignment x0 x1 x2) printed_objective = Some (objective x0 x1 x2) \<and>
         parse_report (stdout grover_cell_7) = parse_report (stdout grover_cell_10) \<and>
         parse_report (stdout grover_cell_7) =
           Some \<lparr>fval = of_int (objective 1 0 1),
                 variables = [(''x0'', 1), (''x1'', 0), (''x2'', 1)], status = ''SUCCESS''\<rparr> \<and>
         objective 1 0 1 = - 6 \<and>
         objective 1 0 1 \<le> objective x0 x1 x2 \<and>
         ''GroverOptimizer'' \<in> set (calls grover_cell_7) \<and>
         ''MinimumEigenOptimizer'' \<in> set (calls grover_cell_10) \<and>
         ''NumPyMinimumEigensolver'' \<in> set (calls grover_cell_10) \<and>
         List.map_filter solve_argument (statements grover_cell_7) =
           List.map_filter solve_argument (statements grover_cell_10)"
proof -
  have "objective 1 0 1 = - 6" by (simp add: objective_def)
  moreover have "objective 1 0 1 \<le> objective x0 x1 x2"
    using assms by (rule objective_minimum)
  ultimately show ?thesis
    by (simp add: objective_is_minimized objective_is_printed grover_report exact_report
        grover_cell_calls exact_cell_calls grover_cell_problem exact_cell_problem)
qed

text \<open>The theorem at the assignment x0 = 0, x1 = 1, x2 = 1, where the objective is -2.\<close>

theorem grover_matches_exact_witness:
  "(0::int) \<in> {0, 1} \<and> (1::int) \<in> {0, 1} \<and>
   poly_value (assignment 0 1 1) minimized = Some (- 2) \<and>
   parse_report (stdout grover_cell_7) = parse_report (stdout grover_cell_10) \<and>
   objective 1 0 1 = - 6 \<and> objective 1 0 1 \<le> objective 0 1 1 \<and> objective 0 1 1 = - 2"
proof -
  have "objective 0 1 1 = - 2" by (simp add: objective_def)
  with grover_matches_exact [of 0 1 1] show ?thesis by simp
qed

section \<open>The cells of the notebooks\<close>

lemma print_result_cell_calls:
  "calls portfolio_cell_8 =
     [''print'', ''format'', ''binary_probabilities'', ''isinstance'', ''abs'', ''to_dict'',
      ''items'', ''print'', ''print'', ''print'', ''sorted'', ''items'', ''array'', ''int'',
      ''list'', ''reversed'', ''to_quadratic_program'', ''evaluate'', ''print'']"
  by code_simp

lemma print_result_cell_branches:
  "filter (\<lambda>k. k \<in> set (names portfolio_cell_8)) branching_keywords = [''if'', ''else'', ''for'']"
  by code_simp

text \<open>
  Claim C2 says that every code cell is a single library call plus a print statement,
  without branching. The cell of the portfolio notebook that defines
  \<open>print_result\<close> is not: it makes fourteen calls besides five calls of
  \<open>print\<close>, and it holds a conditional expression and a \<open>for\<close> loop.
\<close>

theorem cell_shape_counterexample:
  "portfolio_cell_8 \<in> set code_cells \<and>
   length (library_calls portfolio_cell_8) = 14 \<and>
   length (print_calls portfolio_cell_8) = 5 \<and>
   uses_any [''if''] portfolio_cell_8 \<and> uses_any [''for''] portfolio_cell_8 \<and>
   uses_any branching_keywords portfolio_cell_8 \<and>
   \<not> plain_cell portfolio_cell_8"
proof -
  have "portfolio_cell_8 \<in> set code_cells"
    by (simp add: code_cells_def repository_def portfolio_nb_def)
  moreover have "length (library_calls portfolio_cell_8) = 14"
    by (simp add: library_calls_def print_result_cell_calls)
  moreover have "length (print_calls portfolio_cell_8) = 5"
    by (simp add: print_calls_def print_result_cell_calls)
  moreover have "uses_any [''if''] portfolio_cell_8" and "uses_any [''for''] portfolio_cell_8"
    and "uses_any branching_keywords portfolio_cell_8"
    using print_result_cell_branches
    by (auto simp: uses_any_def branching_keywords_def split: if_splits)
  ultimately show ?thesis
    by (simp add: plain_cell_def single_call_plus_print_def)
qed

lemma no_failure_handling: "list_all (\<lambda>c. \<not> uses_any failure_keywords c) code_cells"
  by code_simp

lemma no_concurrency: "list_all (\<lambda>c. \<not> uses_any concurrency_names c) code_cells"
  by code_simp

lemma no_class: "list_all (\<lambda>c. \<not> uses_any [''class''] c) code_cells"
  by code_simp

lemma branching_cells:
  "where_cells (uses_any branching_keywords) =
     [(''# Portfolio Optimization'', Some 2), (''# Portfolio Optimization'', Some 5)]"
  by code_simp

lemma single_call_cells:
  "where_cells single_call_plus_print =
     [(''# The quantum object class'', Some 4), (''# The quantum object class'', Some 5)]"
  by code_simp

text \<open>
  Claim C2, as the code has it. No code cell holds failure handling (\<open>try\<close>,
  \<open>except\<close>, \<open>finally\<close>, \<open>raise\<close>, \<open>assert\<close>), a concurrency primitive or a class
  definition. Branching or looping keywords stand in exactly two cells, both of the
  portfolio notebook: \<open>In [2]\<close>, with the list comprehension that names the stocks, and
  \<open>In [5]\<close>, the helper \<open>print_result\<close>. A cell is a short sequence of imports,
  assignments and library calls: exactly two cells, \<open>In [4]\<close> and \<open>In [5]\<close> of the
  quantum-object notebook, are one library call plus one \<open>print\<close>.
\<close>

theorem cell_shape:
  "list_all (\<lambda>c. \<not> uses_any failure_keywords c) code_cells \<and>
   list_all (\<lambda>c. \<not> uses_any concurrency_names c) code_cells \<and>
   list_all (\<lambda>c. \<not> uses_any [''class''] c) code_cells \<and>
   where_cells (uses_any branching_keywords) =
     [(''# Portfolio Optimization'', Some 2), (''# Portfolio Optimization'', Some 5)] \<and>
   where_cells single_call_plus_print =
     [(''# The quantum object class'', Some 4), (''# The quantum object class'', Some 5)]"
  by (simp only: no_failure_handling no_concurrency no_class branching_cells single_call_cells simp_thms)

section \<open>The pattern of a notebook\<close>

lemma qutip_instances: "instances qutip_nb = []"
  by code_simp

lemma qutip_solve_calls: "solve_calls qutip_nb = 0"
  by code_simp

text \<open>
  Claim C3 says that all four notebooks hand a problem to a solver and print the
  result, the quantum-object notebook included. That notebook calls no \<open>solve\<close>
  at all, so it has no instance of the pattern.
\<close>

theorem notebook_pattern_counterexample:
  "qutip_nb \<in> set repository \<and> solve_calls qutip_nb = 0 \<and> \<not> follows_pattern qutip_nb"
  by (simp add: repository_def qutip_solve_calls follows_pattern_def qutip_instances)

lemma grover_instances:
  "instances grover_nb =
     [(''qp'', ''GroverOptimizer'', ''results''),
      (''qp'', ''MinimumEigenOptimizer'', ''exact_result'')]"
  by code_simp

lemma portfolio_instances:
  "instances portfolio_nb =
     [(''qp'', ''MinimumEigenOptimizer'', ''result''),
      (''qp'', ''MinimumEigenOptimizer'', ''result''),
      (''qp'', ''MinimumEigenOptimizer'', ''result'')]"
  by code_simp

lemma excited_instances:
  "instances excited_nb =
     [(''es_problem'', ''ExcitedStatesEigensolver'', ''numpy_results''),
      (''es_problem'', ''QEOM'', ''qeom_results''),
      (''es_problem'', ''ExcitedStatesEigensolver'', ''new_numpy_results'')]"
  by code_simp

lemma qiskit_solve_calls:
  "solve_calls grover_nb = 2 \<and> solve_calls portfolio_nb = 3 \<and> solve_calls excited_nb = 3"
  by code_simp

lemma grover_builders: "problem_builders grover_nb = [[''from_docplex_mp'']]"
  by code_simp

lemma portfolio_builders: "problem_builders portfolio_nb = [[''to_quadratic_program'']]"
  by code_simp

lemma excited_builders: "problem_builders excited_nb = [[''run'']]"
  by code_simp

lemma qutip_calls:
  "remdups (concat (map calls (cells qutip_nb))) =
     [''array'', ''rand'', ''print'', ''Qobj'', ''coherent'', ''sigmaz'', ''jmat'', ''destroy'',
      ''sigmax'', ''sqrt'', ''dag'', ''diag'', ''norm'', ''full'', ''coherent_dm'', ''tr'',
      ''basis'', ''unit'']"
  by code_simp

lemma qutip_cells:
  "map (\<lambda>c. (cell_kind c, output_kinds c)) (cells qutip_nb) =
     replicate 2 (Imports_cell, []) @ replicate 4 (Printing_cell, [Stdout]) @
     replicate 24 (Displaying_cell, [Value]) @ [(Empty_cell, [])]"
  by code_simp

text \<open>
  Claim C3, as the code has it. Each of the three Qiskit notebooks follows the pattern,
  and every \<open>solve\<close> it calls is an instance of it: a problem assigned earlier is
  passed to the \<open>solve\<close> method of an object constructed by a call of a name the
  notebook imports (\<open>GroverOptimizer\<close>, \<open>MinimumEigenOptimizer\<close>,
  \<open>ExcitedStatesEigensolver\<close>, \<open>QEOM\<close>), the result is assigned, and that result is
  printed, by \<open>print\<close> or by \<open>print_result\<close>, before its variable is assigned
  again. The problem is built by \<open>from_docplex_mp\<close> from a docplex model in the Grover
  notebook, by \<open>to_quadratic_program\<close> of the portfolio application in the portfolio
  notebook, and by \<open>run\<close> of the PySCF driver in the excited-states notebook. The
  quantum-object notebook has no instance of the pattern and never calls \<open>solve\<close>.
  What it calls is \<open>Qobj\<close>, the functions \<open>basis\<close>, \<open>coherent\<close>, \<open>coherent_dm\<close>,
  \<open>destroy\<close>, \<open>sigmax\<close>, \<open>sigmaz\<close>, \<open>jmat\<close>, \<open>array\<close>, \<open>rand\<close> and \<open>sqrt\<close>, the
  methods \<open>dag\<close>, \<open>diag\<close>, \<open>norm\<close>, \<open>full\<close>, \<open>tr\<close> and \<open>unit\<close>, and \<open>print\<close>. Two
  of its cells only import, four end in a call of \<open>print\<close> and recorded text on
  stdout, twenty-four end in an expression and recorded its value, and the last is
  empty.
\<close>

theorem notebook_pattern:
  "instances grover_nb =
     [(''qp'', ''GroverOptimizer'', ''results''),
      (''qp'', ''MinimumEigenOptimizer'', ''exact_result'')] \<and>
   instances portfolio_nb =
     [(''qp'', ''MinimumEigenOptimizer'', ''result''),
      (''qp'', ''MinimumEigenOptimizer'', ''result''),
      (''qp'', ''MinimumEigenOptimizer'', ''result'')] \<and>
   instances excited_nb =
     [(''es_problem'', ''ExcitedStatesEigensolver'', ''numpy_results''),
      (''es_problem'', ''QEOM'', ''qeom_results''),
      (''es_problem'', ''ExcitedStatesEigensolver'', ''new_numpy_results'')] \<and>
   solve_calls grover_nb = 2 \<and> solve_calls portfolio_nb = 3 \<and> solve_calls excited_nb = 3 \<and>
   follows_pattern grover_nb \<and> follows_pattern portfolio_nb \<and> follows_pattern excited_nb \<and>
   problem_builders grover_nb = [[''from_docplex_mp'']] \<and>
   problem_builders portfolio_nb = [[''to_quadratic_program'']] \<and>
   problem_builders excited_nb = [[''run'']] \<and>
   instances qutip_nb = [] \<and> solve_calls qutip_nb = 0 \<and>
   remdups (concat (map calls (cells qutip_nb))) =
     [''array'', ''rand'', ''print'', ''Qobj'', ''coherent'', ''sigmaz'', ''jmat'', ''destroy'',
      ''sigmax'', ''sqrt'', ''dag'', ''diag'', ''norm'', ''full'', ''coherent_dm'', ''tr'',
      ''basis'', ''unit''] \<and>
   map (\<lambda>c. (cell_kind c, output_kinds c)) (cells qutip_nb) =
     replicate 2 (Imports_cell, []) @ replicate 4 (Printing_cell, [Stdout]) @
     replicate 24 (Displaying_cell, [Value]) @ [(Empty_cell, [])]"
proof -
  have "follows_pattern grover_nb" and "follows_pattern portfolio_nb"
    and "follows_pattern excited_nb"
    by (simp_all add: follows_pattern_def grover_instances portfolio_instances excited_instances)
  then show ?thesis
    by (simp only: grover_instances portfolio_instances excited_instances qiskit_solve_calls
        grover_builders portfolio_builders excited_builders qutip_instances qutip_solve_calls
        qutip_calls qutip_cells simp_thms)
qed

section \<open>Failures reach the cell output\<close>

lemma run_unguarded:
  "list_all (\<lambda>s. \<not> opens_handler s) ss \<Longrightarrow> run raises False i ss = first_failure raises i ss"
  by (induction ss arbitrary: i) (auto split: option.splits)

lemma no_handling: "list_all (\<lambda>c. \<not> uses_any handling_keywords c) code_cells"
  by code_simp

lemma no_handler_statement:
  "list_all (\<lambda>c. list_all (\<lambda>s. \<not> opens_handler s) (statements c)) code_cells"
  by code_simp

text \<open>
  Claim C4. No code cell of any notebook holds recovery, retry or validation logic:
  none uses \<open>try\<close>, \<open>except\<close>, \<open>finally\<close>, \<open>raise\<close>, \<open>assert\<close>, \<open>while\<close> or
  \<open>with\<close>. So whatever the library raises, and wherever, the cell ends with the
  traceback of the first statement that raises: nothing stands between a failure and
  the cell's output.
\<close>

theorem failures_propagate:
  "list_all (\<lambda>c. \<not> uses_any handling_keywords c) code_cells \<and>
   list_all (\<lambda>c. run_cell raises c = first_failure raises 0 (statements c)) code_cells"
proof -
  have "list_all (\<lambda>c. run_cell raises c = first_failure raises 0 (statements c)) code_cells"
    using no_handler_statement
    by (auto simp: list_all_iff run_cell_def intro!: run_unguarded)
  with no_handling show ?thesis by simp
qed

section \<open>One notebook for each problem\<close>

text \<open>
  Claim C5. The repository holds four notebooks, one for each of the four problems:
  \<open>GroverOptimizer\<close> is called in the Grover notebook and nowhere else,
  \<open>PortfolioOptimization\<close> in the portfolio notebook, \<open>ExcitedStatesEigensolver\<close>
  and \<open>QEOM\<close> in the excited-states notebook, and \<open>Qobj\<close> in the quantum-object
  notebook.
\<close>

theorem four_notebooks:
  "map (\<lambda>f. map title (filter (invokes f) repository))
     [''GroverOptimizer'', ''PortfolioOptimization'', ''ExcitedStatesEigensolver'', ''QEOM'', ''Qobj''] =
     [[''# Grover Optimizer''], [''# Portfolio Optimization''], [''# Excited states solvers''],
      [''# Excited states solvers''], [''# The quantum object class'']] \<and>
   length repository = 4 \<and> distinct (map title repository)"
proof -
  have "map (\<lambda>f. map title (filter (invokes f) repository))
     [''GroverOptimizer'', ''PortfolioOptimization'', ''ExcitedStatesEigensolver'', ''QEOM'', ''Qobj''] =
     [[''# Grover Optimizer''], [''# Portfolio Optimization''], [''# Excited states solvers''],
      [''# Excited states solvers''], [''# The quantum object class'']]"
    by code_simp
  moreover have "distinct (map title repository)" by code_simp
  ultimately show ?thesis by (simp add: repository_def)
qed

section \<open>The signatures of the library constructors\<close>

lemma grover_constructor:
  "constructor_calls ''GroverOptimizer'' =
     [[Positional [Number ''6''], Keyword ''num_iterations'' [Number ''10''],
       Keyword ''sampler'' [Name ''Sampler'', Op CHR ''('', Op CHR '')'']]]"
  by code_simp

lemma portfolio_constructor:
  "constructor_calls ''PortfolioOptimization'' =
     [[Keyword ''expected_returns'' [Name ''mu''], Keyword ''covariances'' [Name ''sigma''],
       Keyword ''risk_factor'' [Name ''q''], Keyword ''budget'' [Name ''budget'']]]"
  by code_simp

text \<open>
  Claim C6. \<open>GroverOptimizer\<close> is called once, with the number of value qubits first
  and then \<open>num_iterations\<close> and \<open>sampler\<close> by keyword; \<open>PortfolioOptimization\<close>
  is called once, with \<open>expected_returns\<close>, \<open>covariances\<close>, \<open>risk_factor\<close> and
  \<open>budget\<close> by keyword. Bound the way Python binds arguments, each call fills
  every parameter of the signature the specification lists, in the listed order.
\<close>

theorem constructor_signatures:
  "constructor_calls ''GroverOptimizer'' =
     [[Positional [Number ''6''], Keyword ''num_iterations'' [Number ''10''],
       Keyword ''sampler'' [Name ''Sampler'', Op CHR ''('', Op CHR '')'']]] \<and>
   map (bind_args grover_signature) (constructor_calls ''GroverOptimizer'') =
     [Some [''num_value_qubits'', ''num_iterations'', ''sampler'']] \<and>
   constructor_calls ''PortfolioOptimization'' =
     [[Keyword ''expected_returns'' [Name ''mu''], Keyword ''covariances'' [Name ''sigma''],
       Keyword ''risk_factor'' [Name ''q''], Keyword ''budget'' [Name ''budget'']]] \<and>
   map (bind_args portfolio_signature) (constructor_calls ''PortfolioOptimization'') =
     [Some [''expected_returns'', ''covariances'', ''risk_factor'', ''budget'']]"
  by (simp add: grover_constructor portfolio_constructor grover_signature_def
      portfolio_signature_def)

section \<open>No entity types of the repository\<close>

lemma power_cell_statements:
  "statements qutip_cell_22 = [[Name ''q'', Op CHR ''*'', Op CHR ''*'', Number ''3'']]"
  by code_simp

text \<open>
  Claim C7 says that every code cell merely constructs instances through library
  constructors and reads result fields. The cell \<open>q ** 3\<close> of the quantum-object
  notebook does neither: its one statement calls nothing and reads no field, it
  raises a library object to a power.
\<close>

theorem entity_types_counterexample:
  "qutip_cell_22 \<in> set code_cells \<and>
   statements qutip_cell_22 = [[Name ''q'', Op CHR ''*'', Op CHR ''*'', Number ''3'']] \<and>
   \<not> merely_constructs_and_reads qutip_cell_22"
proof -
  have "qutip_cell_22 \<in> set code_cells"
    by (simp add: code_cells_def repository_def qutip_nb_def)
  then show ?thesis
    by (simp add: power_cell_statements merely_constructs_and_reads_def is_import_def
        is_magic_def constructs_or_reads_def)
qed

lemma no_type_or_invariant:
  "list_all (\<lambda>c. \<not> uses_any [''class'', ''assert'', ''raise''] c) code_cells"
  by code_simp

lemma def_cells:
  "where_cells (uses_any [''def'']) =
     [(''# Portfolio Optimization'', Some 5), (''# Excited states solvers'', Some 6)]"
  by code_simp

lemma arithmetic_cells:
  "where_cells (\<lambda>c. list_ex arithmetic_only (statements c)) =
     [(''# Portfolio Optimization'', Some 4), (''# The quantum object class'', Some 23),
      (''# The quantum object class'', Some 24), (''# The quantum object class'', Some 25)]"
  by code_simp

lemma other_cells:
  "where_cells (\<lambda>c. \<not> merely_constructs_and_reads c) =
     [(''# Portfolio Optimization'', Some 2), (''# Portfolio Optimization'', Some 4),
      (''# Portfolio Optimization'', Some 5), (''# Portfolio Optimization'', Some 7),
      (''# Portfolio Optimization'', Some 8), (''# Excited states solvers'', Some 6),
      (''# The quantum object class'', Some 23), (''# The quantum object class'', Some 24),
      (''# The quantum object class'', Some 25)]"
  by code_simp

lemma store_cells:
  "where_cells (\<lambda>c. list_ex (\<lambda>s. sets_attribute s \<and> \<not> constructs_or_reads s) (statements c)) =
     [(''# Portfolio Optimization'', Some 7), (''# Portfolio Optimization'', Some 8)]"
  by code_simp

lemma literal_cells:
  "where_cells (\<lambda>c. list_ex (\<lambda>s. binds_name s \<and> \<not> constructs_or_reads s \<and> \<not> arithmetic_only s) (statements c)) =
     [(''# Portfolio Optimization'', Some 2), (''# Portfolio Optimization'', Some 4)]"
  by code_simp

text \<open>
  Claim C7, as the code has it. No code cell defines a class or establishes an
  invariant: none uses \<open>class\<close>, \<open>assert\<close> or \<open>raise\<close>. In all but nine cells every
  statement is an import, a notebook magic, or holds a call or a field read. Of the
  nine, two define the helper functions \<open>print_result\<close> and \<open>filter_criterion\<close>,
  four hold a statement that only applies arithmetic operators
  (\<open>budget = num_assets // 2\<close>, \<open>q + 5\<close>, \<open>x * x\<close> and \<open>q ** 3\<close>), two store
  \<open>algorithm_globals.random_seed = 1234\<close>, and two bind a name to a number or to
  another name (\<open>num_assets = 4\<close>, \<open>q = 0.5\<close>); \<open>In [4]\<close> of the portfolio
  notebook is among the four and among the last two.
\<close>

theorem entity_types:
  "list_all (\<lambda>c. \<not> uses_any [''class'', ''assert'', ''raise''] c) code_cells \<and>
   where_cells (\<lambda>c. \<not> merely_constructs_and_reads c) =
     [(''# Portfolio Optimization'', Some 2), (''# Portfolio Optimization'', Some 4),
      (''# Portfolio Optimization'', Some 5), (''# Portfolio Optimization'', Some 7),
      (''# Portfolio Optimization'', Some 8), (''# Excited states solvers'', Some 6),
      (''# The quantum object class'', Some 23), (''# The quantum object class'', Some 24),
      (''# The quantum object class'', Some 25)] \<and>
   where_cells (uses_any [''def'']) =
     [(''# Portfolio Optimization'', Some 5), (''# Excited states solvers'', Some 6)] \<and>
   where_cells (\<lambda>c. list_ex arithmetic_only (statements c)) =
     [(''# Portfolio Optimization'', Some 4), (''# The quantum object class'', Some 23),
      (''# The quantum object class'', Some 24), (''# The quantum object class'', Some 25)] \<and>
   where_cells (\<lambda>c. list_ex (\<lambda>s. sets_attribute s \<and> \<not> constructs_or_reads s) (statements c)) =
     [(''# Portfolio Optimization'', Some 7), (''# Portfolio Optimization'', Some 8)] \<and>
   where_cells (\<lambda>c. list_ex (\<lambda>s. binds_name s \<and> \<not> constructs_or_reads s \<and> \<not> arithmetic_only s) (statements c)) =
     [(''# Portfolio Optimization'', Some 2), (''# Portfolio Optimization'', Some 4)]"
  by (simp only: no_type_or_invariant other_cells def_cells arithmetic_cells store_cells
      literal_cells simp_thms)

section \<open>Linear execution\<close>













section \<open>The recorded excited-state energies\<close>

lemma qeom_energies_value:
  "qeom_energies =
     Some [- (524617761696 / 10 ^ 12), - (162755362097 / 10 ^ 12), 495055535308 / 10 ^ 12]"
  by code_simp

lemma numpy_energies_value:
  "numpy_energies =
     Some [- (524615555364 / 10 ^ 12), - (162753155796 / 10 ^ 12), 495057741618 / 10 ^ 12]"
  by code_simp

lemma printed_reports:
  "printed_variables excited_cell_10 = [''numpy_results'', ''qeom_results''] \<and>
   printed_variables excited_cell_12 = [''new_numpy_results'']"
  by code_simp

lemma numpy_solvers:
  "constructor_calls ''NumPyEigensolver'' =
     [[Keyword ''k'' [Number ''4''],
       Keyword ''filter_criterion''
         [Name ''es_problem'', Op CHR ''.'', Name ''get_default_filter_criterion'',
          Op CHR ''('', Op CHR '')'']],
      [Keyword ''k'' [Number ''4''], Keyword ''filter_criterion'' [Name ''filter_criterion'']]]"
  by code_simp

text \<open>
  Claim C9. In the recorded outputs of the excited-states notebook, the qEOM solver and
  the \<open>NumPyEigensolver\<close> run with the notebook's \<open>filter_criterion\<close> each report
  three excited states, and the total energies of the states they both report differ
  by less than 1e-4 Hartree, state by state. The qEOM result is the second one the
  fifth code cell prints; the sixth code cell prints the result of the solver that is
  built with \<open>filter_criterion=filter_criterion\<close>.
\<close>

theorem excited_energies_agree:
  "qeom_energies =
     Some [- (524617761696 / 10 ^ 12), - (162755362097 / 10 ^ 12), 495055535308 / 10 ^ 12] \<and>
   numpy_energies =
     Some [- (524615555364 / 10 ^ 12), - (162753155796 / 10 ^ 12), 495057741618 / 10 ^ 12] \<and>
   agree_within (1 / 10 ^ 4) (the qeom_energies) (the numpy_energies) \<and>
   printed_variables excited_cell_10 = [''numpy_results'', ''qeom_results''] \<and>
   printed_variables excited_cell_12 = [''new_numpy_results''] \<and>
   constructor_calls ''NumPyEigensolver'' =
     [[Keyword ''k'' [Number ''4''],
       Keyword ''filter_criterion''
         [Name ''es_problem'', Op CHR ''.'', Name ''get_default_filter_criterion'',
          Op CHR ''('', Op CHR '')'']],
      [Keyword ''k'' [Number ''4''], Keyword ''filter_criterion'' [Name ''filter_criterion'']]]"
  by (simp add: qeom_energies_value numpy_energies_value agree_within_def printed_reports
      numpy_solvers)

section \<open>What \<open>print_result\<close> prints\<close>

lemma sorted_reverse_descending:
  "sorted_wrt (\<lambda>a b. key b \<le> key a) (sorted_reverse key xs)"
proof -
  have "sorted (map key (sort_key key (rev xs)))"
    by (rule sorted_sort_key)
  then have "sorted_wrt (\<lambda>a b. key a \<le> key b) (sort_key key (rev xs))"
    by (simp add: sorted_map)
  then show ?thesis
    by (simp add: sorted_reverse_def sorted_wrt_rev)
qed

lemma set_sorted_reverse: "set (sorted_reverse key xs) = set xs"
  by (simp add: sorted_reverse_def)

lemma int_list_digits:
  "list_all (\<lambda>c. digit_value c \<noteq> None) cs \<Longrightarrow> int_list cs = Inr (map (\<lambda>c. the (digit_value c)) cs)"
  by (induction cs) (auto simp: py_int_def split: option.splits)

lemma bitstring_digits: "bitstring k \<Longrightarrow> list_all (\<lambda>c. digit_value c \<noteq> None) (rev k)"
  by (auto simp: bitstring_def list_all_iff digit_value_def)

lemma int_list_bitstring: "bitstring k \<Longrightarrow> int_list (rev k) = Inr (selection_of k)"
  using int_list_digits [OF bitstring_digits] by (simp add: selection_of_def)

lemma print_rows_total:
  "list_all (\<lambda>(k, v). bitstring k) kvs \<Longrightarrow>
   print_rows (\<lambda>x. Inr (f x)) kvs =
     (map (\<lambda>(k, v). Row (selection_of k) (f (selection_of k)) v) kvs, None)"
  by (induction kvs) (auto simp: int_list_bitstring)

lemma print_rows_prefix:
  "\<exists>n. map (\<lambda>(x, val, v). v) (table_rows (fst (print_rows evaluate kvs))) = take n (map snd kvs)"
proof (induction kvs)
  case Nil
  show ?case by (simp add: table_rows_def)
next
  case (Cons kv kvs)
  obtain k v where kv: "kv = (k, v)" by (cases kv)
  from Cons obtain n where n: "map (\<lambda>(x, val, v). v) (table_rows (fst (print_rows evaluate kvs))) = take n (map snd kvs)" by blast
  show ?case
  proof (cases "int_list (rev k)")
    case (Inl e)
    then have "map (\<lambda>(x, val, v). v) (table_rows (fst (print_rows evaluate (kv # kvs)))) = take 0 (map snd (kv # kvs))"
      by (simp add: kv table_rows_def)
    then show ?thesis by blast
  next
    case (Inr x)
    show ?thesis
    proof (cases "evaluate x")
      case (Inl e)
      with Inr have "map (\<lambda>(x, val, v). v) (table_rows (fst (print_rows evaluate (kv # kvs)))) = take 0 (map snd (kv # kvs))"
        by (simp add: kv table_rows_def)
      then show ?thesis by blast
    next
      case (Inr val)
      with \<open>int_list (rev k) = Inr x\<close> n
      have "map (\<lambda>(x, val, v). v) (table_rows (fst (print_rows evaluate (kv # kvs)))) = take (Suc n) (map snd (kv # kvs))"
        by (cases "print_rows evaluate kvs") (simp add: kv table_rows_def)
      then show ?thesis by blast
    qed
  qed
qed

lemma table_rows_print_result:
  "table_rows (fst (print_result evaluate r)) =
   table_rows (fst (print_rows evaluate (sorted_reverse snd (probabilities (result_eigenstate r)))))"
  by (simp add: print_result_def table_rows_def table_header_def split: prod.splits)

lemma recorded_tables_sorted:
  "list_all (\<lambda>c. non_increasing (recorded_probabilities c))
     [portfolio_cell_10, portfolio_cell_12, portfolio_cell_14]"
  by code_simp

lemma recorded_tables_printed:
  "list_all (\<lambda>c. ''print_result'' \<in> set (calls c))
     [portfolio_cell_10, portfolio_cell_12, portfolio_cell_14]"
  by code_simp

text \<open>
  Claim C10. For every solver result handed to \<open>print_result\<close>, the rows of the
  printed table stand in non-increasing order of probability, whatever the objective's
  \<open>evaluate\<close> does, an exception included. When the keys of the probabilities are
  bitstrings and \<open>evaluate\<close> returns \<open>f x\<close> for every \<open>x\<close>, the function prints the
  optimum, the table header and one row for every item of the probabilities sorted
  descending by value, and raises nothing; the selection vector of a row is its key
  reversed, read digit by digit, and the value of the row is the objective at that
  vector. The three tables recorded in the notebook, each printed by a cell that calls
  \<open>print_result\<close>, are in non-increasing order of probability.
\<close>

theorem print_result_table:
  assumes "list_all (\<lambda>(k, v). bitstring k) (probabilities (result_eigenstate r))"
  shows "sorted_wrt (\<lambda>p q. q \<le> p)
           (map (\<lambda>(x, val, v). v) (table_rows (fst (print_result evaluate r)))) \<and>
         print_result (\<lambda>x. Inr (f x)) r =
           (Optimal (result_x r) (result_fval r) # table_header @
              map (\<lambda>(k, v). Row (selection_of k) (f (selection_of k)) v)
                (sorted_reverse snd (probabilities (result_eigenstate r))),
            None) \<and>
         list_all (\<lambda>c. ''print_result'' \<in> set (calls c))
           [portfolio_cell_10, portfolio_cell_12, portfolio_cell_14] \<and>
         list_all (\<lambda>c. non_increasing (recorded_probabilities c))
           [portfolio_cell_10, portfolio_cell_12, portfolio_cell_14]"
proof (intro conjI)
  let ?items = "sorted_reverse snd (probabilities (result_eigenstate r))"
  obtain n where n: "map (\<lambda>(x, val, v). v) (table_rows (fst (print_rows evaluate ?items))) = take n (map snd ?items)"
    using print_rows_prefix by blast
  have "sorted_wrt (\<lambda>a b. snd b \<le> snd a) ?items"
    by (rule sorted_reverse_descending)
  then have "sorted_wrt (\<lambda>p q. q \<le> p) (map snd ?items)"
    by (simp add: sorted_wrt_map)
  then have "sorted_wrt (\<lambda>p q. q \<le> p) (take n (map snd ?items))"
    by (rule sorted_wrt_take)
  then show "sorted_wrt (\<lambda>p q. q \<le> p) (map (\<lambda>(x, val, v). v) (table_rows (fst (print_result evaluate r))))"
    by (simp add: table_rows_print_result n)
next
  let ?items = "sorted_reverse snd (probabilities (result_eigenstate r))"
  from assms have "list_all (\<lambda>(k, v). bitstring k) ?items"
    by (simp add: list_all_iff set_sorted_reverse)
  then show "print_result (\<lambda>x. Inr (f x)) r =
           (Optimal (result_x r) (result_fval r) # table_header @
              map (\<lambda>(k, v). Row (selection_of k) (f (selection_of k)) v) ?items, None)"
    by (simp add: print_result_def print_rows_total)
qed (rule recorded_tables_printed, rule recorded_tables_sorted)

text \<open>The theorem at a result with three outcomes, two of them of equal probability.\<close>

theorem print_result_table_witness:
  "list_all (\<lambda>(k, v). bitstring k)
     (probabilities (result_eigenstate
        \<lparr>result_x = [1, 0], result_fval = 1,
           result_eigenstate = QuasiDistribution [(''01'', 1 / 4), (''11'', 1 / 2), (''10'', 1 / 4)]\<rparr>)) \<and>
   print_result (\<lambda>x. Inr (real_of_int (sum_list x)))
     \<lparr>result_x = [1, 0], result_fval = 1,
        result_eigenstate = QuasiDistribution [(''01'', 1 / 4), (''11'', 1 / 2), (''10'', 1 / 4)]\<rparr> =
     (Optimal [1, 0] 1 # table_header @ [Row [1, 1] 2 (1 / 2), Row [1, 0] 1 (1 / 4), Row [0, 1] 1 (1 / 4)],
      None)"
proof -
  let ?r = "\<lparr>result_x = [1, 0], result_fval = 1,
        result_eigenstate = QuasiDistribution [(''01'', 1 / 4), (''11'', 1 / 2), (''10'', 1 / 4)]\<rparr>"
  have keys: "list_all (\<lambda>(k, v). bitstring k) (probabilities (result_eigenstate ?r))"
    by (simp add: bitstring_def)
  from print_result_table [OF keys, of "\<lambda>x. Inr 0" "\<lambda>x. real_of_int (sum_list x)"] keys
  show ?thesis
    by (simp add: sorted_reverse_def selection_of_def digit_value_def)
qed

end
